theory Spec2Isabelle
  imports Main "HOL-Library.List_Lexorder"
begin

section \<open>Python strings\<close>

text \<open>
  A Python \<open>str\<close> is a sequence of Unicode code points; \<open>len\<close> and slicing count code
  points. The bot's literals are Cyrillic, so a string is modelled as the list of its code
  points. ASCII literals are written through \<open>ascii\<close>.
\<close>

type_synonym pystr = "nat list"

definition ascii :: "string \<Rightarrow> pystr" where
  "ascii s = map of_char s"

text \<open>
  \<open>str.isspace\<close> per character, the set \<open>str.strip()\<close> and \<open>str.split()\<close> use: the
  code points CPython lists as whitespace.
\<close>

definition py_isspace :: "nat \<Rightarrow> bool" where
  "py_isspace c =
     ((9 \<le> c \<and> c \<le> 13) \<or> (28 \<le> c \<and> c \<le> 32) \<or> c = 133 \<or> c = 160 \<or> c = 5760
      \<or> (8192 \<le> c \<and> c \<le> 8202) \<or> c = 8232 \<or> c = 8233 \<or> c = 8239 \<or> c = 8287
      \<or> c = 12288)"

text \<open>\<open>s.strip()\<close>\<close>

definition py_strip :: "pystr \<Rightarrow> pystr" where
  "py_strip s = rev (dropWhile py_isspace (rev (dropWhile py_isspace s)))"

text \<open>\<open>s.split(sep)\<close> for a separator of one character: never an empty result.\<close>

fun py_split :: "'a \<Rightarrow> 'a list \<Rightarrow> 'a list list" where
  "py_split sep [] = [[]]"
| "py_split sep (x # xs) =
     (if x = sep then [] # py_split sep xs
      else (case py_split sep xs of
              [] \<Rightarrow> [[x]]
            | l # ls \<Rightarrow> (x # l) # ls))"

text \<open>\<open>sep.join(parts)\<close>, used to state properties of \<open>py_split\<close>.\<close>

fun py_join :: "'a \<Rightarrow> 'a list list \<Rightarrow> 'a list" where
  "py_join sep [] = []"
| "py_join sep [l] = l"
| "py_join sep (l # m # ls) = l @ sep # py_join sep (m # ls)"

text \<open>\<open>s.startswith(p)\<close> and \<open>p in s\<close> (substring test).\<close>

definition py_startswith :: "'a list \<Rightarrow> 'a list \<Rightarrow> bool" where
  "py_startswith s p = (take (length p) s = p)"

fun py_in :: "'a list \<Rightarrow> 'a list \<Rightarrow> bool" where
  "py_in p [] = (p = [])"
| "py_in p (x # xs) = (py_startswith (x # xs) p \<or> py_in p xs)"

text \<open>
  \<open>s.replace(old, new)\<close>: occurrences are replaced from left to right and the scan goes on
  after each replaced occurrence. For an empty \<open>old\<close> Python inserts \<open>new\<close> before every
  character and at the end.
\<close>

function py_replace :: "'a list \<Rightarrow> 'a list \<Rightarrow> 'a list \<Rightarrow> 'a list" where
  "py_replace old new [] = (if old = [] then new else [])"
| "py_replace old new (x # xs) =
     (if old = [] then new @ x # py_replace old new xs
      else if py_startswith (x # xs) old
           then new @ py_replace old new (drop (length old) (x # xs))
           else x # py_replace old new xs)"
  by pat_completeness auto
termination
  by (relation "measure (\<lambda>(old, new, s). length s)") auto

text \<open>
  \<open>str.isdigit()\<close>: true when the string is not empty and every character is a digit
  of the Unicode database (ASCII digits, and the digits of other scripts). The table of
  the interpreter is not part of the repository: the per-character test is a parameter
  \<open>dg\<close> of the model.
\<close>

definition py_isdigit :: "(nat \<Rightarrow> bool) \<Rightarrow> pystr \<Rightarrow> bool" where
  "py_isdigit dg s = (s \<noteq> [] \<and> list_all dg s)"

text \<open>The ASCII digits, for evaluating the model on concrete inputs.\<close>

definition ascii_digit :: "nat \<Rightarrow> bool" where
  "ascii_digit c = (48 \<le> c \<and> c \<le> 57)"

text \<open>\<open>str(n)\<close> for a natural number.\<close>

fun str_nat :: "nat \<Rightarrow> pystr" where
  "str_nat n = (if n < 10 then [48 + n] else str_nat (n div 10) @ [48 + n mod 10])"

declare str_nat.simps [simp del]

section \<open>Validators\<close>

text \<open>\<open>validate_inn\<close>: all digits, and 10 or 12 of them.\<close>

definition validate_inn :: "(nat \<Rightarrow> bool) \<Rightarrow> pystr \<Rightarrow> bool" where
  "validate_inn dg inn =
     (if \<not> py_isdigit dg inn then False
      else if \<not> (length inn = 10 \<or> length inn = 12) then False
      else True)"

text \<open>
  \<open>validate_email\<close>: \<open>re.match\<close> of
  \<^verbatim>\<open>^[a-zA-Z0-9._%+-]+@[a-zA-Z0-9.-]+\.[a-zA-Z]{2,}$\<close>.
  The classes are ASCII ranges. \<open>$\<close> matches at the end of the string and also just before
  a line feed that ends the string. A match is a choice of the position \<open>i\<close> of the
  \<open>@\<close> and of the position \<open>j\<close> of the dot before the last part.
\<close>

definition is_alpha :: "nat \<Rightarrow> bool" where
  "is_alpha c = ((97 \<le> c \<and> c \<le> 122) \<or> (65 \<le> c \<and> c \<le> 90))"

definition is_alnum :: "nat \<Rightarrow> bool" where
  "is_alnum c = (is_alpha c \<or> (48 \<le> c \<and> c \<le> 57))"

definition local_char :: "nat \<Rightarrow> bool" where
  "local_char c = (is_alnum c \<or> c = 46 \<or> c = 95 \<or> c = 37 \<or> c = 43 \<or> c = 45)"

definition domain_char :: "nat \<Rightarrow> bool" where
  "domain_char c = (is_alnum c \<or> c = 46 \<or> c = 45)"

definition tld_end :: "pystr \<Rightarrow> bool" where
  "tld_end t =
     (let t' = (if t \<noteq> [] \<and> last t = 10 then butlast t else t)
      in 2 \<le> length t' \<and> list_all is_alpha t')"

definition email_match_at :: "pystr \<Rightarrow> nat \<Rightarrow> nat \<Rightarrow> bool" where
  "email_match_at s i j =
     (i < j \<and> j < length s \<and> s ! i = 64 \<and> s ! j = 46
      \<and> 0 < i \<and> list_all local_char (take i s)
      \<and> i + 1 < j \<and> list_all domain_char (take (j - (i + 1)) (drop (i + 1) s))
      \<and> tld_end (drop (j + 1) s))"

definition validate_email :: "pystr \<Rightarrow> bool" where
  "validate_email email =
     list_ex (\<lambda>i. list_ex (\<lambda>j. email_match_at email i j) [0..<length email])
       [0..<length email]"

text \<open>
  \<open>validate_phone\<close>: the five \<open>replace\<close> calls in the source's order, then
  \<open>isdigit\<close> and the length.
\<close>

definition validate_phone :: "(nat \<Rightarrow> bool) \<Rightarrow> pystr \<Rightarrow> bool" where
  "validate_phone dg phone =
     (let phone1 = py_replace [41] []
                     (py_replace [40] []
                       (py_replace [45] []
                         (py_replace [32] []
                           (py_replace [43] [] phone))))
      in py_isdigit dg phone1 \<and> 10 \<le> length phone1)"

section \<open>Splitting a long reply\<close>

text \<open>
  \<open>range(0, n, step)\<close> for a positive step, and the slice \<open>s[i:j]\<close> for
  \<open>0 \<le> i \<le> j\<close> (a slice never raises: it stops at the end of the string).
\<close>

definition py_range_step :: "nat \<Rightarrow> nat \<Rightarrow> nat list" where
  "py_range_step n step = map (\<lambda>k. k * step) [0..<(n + step - 1) div step]"

definition py_slice :: "'a list \<Rightarrow> nat \<Rightarrow> nat \<Rightarrow> 'a list" where
  "py_slice s i j = take (j - i) (drop i s)"

text \<open>
  The loop \<^verbatim>\<open>for i in range(0, len(response), 4096): send(response[i:i + 4096])\<close> of
  \<open>show_all_companies\<close> and \<open>perform_search\<close>: the list of the texts it sends.
\<close>

definition reply_chunks :: "'a list \<Rightarrow> 'a list list" where
  "reply_chunks response =
     map (\<lambda>i. py_slice response i (i + 4096)) (py_range_step (length response) 4096)"


section \<open>Exceptions\<close>

text \<open>
  The exceptions the handlers can meet, each with the text \<open>str(e)\<close> gives.
  \<open>RequestException\<close> stands for \<open>requests.RequestException\<close> and its subclasses
  (time-outs, HTTP status errors): the ones \<open>send_request\<close> catches and retries.
\<close>

datatype exn =
    RequestException pystr
  | AttributeError pystr
  | KeyError pystr
  | StoreError pystr
  | OtherError pystr

fun str_exn :: "exn \<Rightarrow> pystr" where
  "str_exn (RequestException d) = d"
| "str_exn (AttributeError d) = d"
| "str_exn (KeyError d) = d"
| "str_exn (StoreError d) = d"
| "str_exn (OtherError d) = d"

section \<open>Decoded API responses\<close>

text \<open>
  What \<open>response.json()\<close> can return: \<open>None\<close>, a string, a dict, or a value of another
  type (number, boolean, list), of which the code only observes the truth value and the
  type name (in the \<open>AttributeError\<close> it provokes).
\<close>

datatype pyjson =
    JNone
  | JStr pystr
  | JDict "(pystr \<times> pyjson) list"
  | JOther bool pystr

fun truthy :: "pyjson \<Rightarrow> bool" where
  "truthy JNone = False"
| "truthy (JStr s) = (s \<noteq> [])"
| "truthy (JDict kv) = (kv \<noteq> [])"
| "truthy (JOther b ty) = b"

fun type_name :: "pyjson \<Rightarrow> pystr" where
  "type_name JNone = ascii ''NoneType''"
| "type_name (JStr s) = ascii ''str''"
| "type_name (JDict kv) = ascii ''dict''"
| "type_name (JOther b ty) = ty"

definition no_attribute :: "pyjson \<Rightarrow> string \<Rightarrow> exn" where
  "no_attribute v attr =
     AttributeError (ascii [CHR 39] @ type_name v @ ascii [CHR 39]
                     @ ascii '' object has no attribute '' @ ascii [CHR 39] @ ascii attr
                     @ ascii [CHR 39])"

text \<open>\<open>d.get(key)\<close> and \<open>d.get(key, default)\<close> on a decoded dict; \<open>a or b\<close>.\<close>

definition dict_get :: "(pystr \<times> pyjson) list \<Rightarrow> pystr \<Rightarrow> pyjson" where
  "dict_get kv k = (case map_of kv k of None \<Rightarrow> JNone | Some v \<Rightarrow> v)"

definition dict_get_default :: "(pystr \<times> pyjson) list \<Rightarrow> pystr \<Rightarrow> pyjson \<Rightarrow> pyjson" where
  "dict_get_default kv k dflt = (case map_of kv k of None \<Rightarrow> dflt | Some v \<Rightarrow> v)"

definition py_or :: "pyjson \<Rightarrow> pyjson \<Rightarrow> pyjson" where
  "py_or a b = (if truthy a then a else b)"

section \<open>Response parser\<close>

datatype field = Name | Inn | Phone | Contact_person | Email

type_synonym company_data = "field \<rightharpoonup> pystr"

text \<open>The five labels of the strict format, as code points.\<close>

definition lbl_name :: pystr where
  "lbl_name = [1053, 1072, 1079, 1074, 1072, 1085, 1080, 1077, 58]"

definition lbl_inn :: pystr where
  "lbl_inn = [1048, 1053, 1053, 58]"

definition lbl_phone :: pystr where
  "lbl_phone = [1058, 1077, 1083, 1077, 1092, 1086, 1085, 58]"

definition lbl_contact_person :: pystr where
  "lbl_contact_person = [1050, 1086, 1085, 1090, 1072, 1082, 1090, 1085, 1086, 1077, 32, 1083,
     1080, 1094, 1086, 58]"

definition lbl_email :: pystr where
  "lbl_email = [69, 109, 97, 105, 108, 58]"

text \<open>The body of the loop over the lines: the first label found in the line decides the key.\<close>

definition parse_line :: "company_data \<Rightarrow> pystr \<Rightarrow> company_data" where
  "parse_line company_data line =
     (if py_in lbl_name line
        then company_data(Name \<mapsto> py_strip (py_replace lbl_name [] line))
      else if py_in lbl_inn line
        then company_data(Inn \<mapsto> py_strip (py_replace lbl_inn [] line))
      else if py_in lbl_phone line
        then company_data(Phone \<mapsto> py_strip (py_replace lbl_phone [] line))
      else if py_in lbl_contact_person line
        then company_data(Contact_person \<mapsto> py_strip (py_replace lbl_contact_person [] line))
      else if py_in lbl_email line
        then company_data(Email \<mapsto> py_strip (py_replace lbl_email [] line))
      else company_data)"

text \<open>From \<open>company_data = {}\<close> to the end of \<open>parse_api_response\<close>.\<close>

definition parse_text_data :: "pystr \<Rightarrow> company_data option" where
  "parse_text_data text_data =
     (let company_data = foldl parse_line Map.empty (py_split 10 text_data)
      in if list_all (\<lambda>f. company_data f \<noteq> None) [Name, Inn, Email]
         then Some company_data else None)"

text \<open>
  \<open>text_data = response_data.get('done') or response_data.get('message') or
  response_data.get('text', '')\<close>
\<close>

definition text_data_of :: "(pystr \<times> pyjson) list \<Rightarrow> pyjson" where
  "text_data_of kv =
     py_or (dict_get kv (ascii ''done''))
       (py_or (dict_get kv (ascii ''message''))
          (dict_get_default kv (ascii ''text'') (JStr [])))"

text \<open>
  \<open>parse_api_response\<close>. A response that is true and not a dict has no \<open>get\<close>; a text
  that is true and not a string has no \<open>split\<close>: both raise \<open>AttributeError\<close>.
\<close>

definition parse_api_response :: "pyjson \<Rightarrow> exn + company_data option" where
  "parse_api_response response_data =
     (if \<not> truthy response_data then Inr None
      else (case response_data of
              JDict kv \<Rightarrow>
                (let text_data = text_data_of kv
                 in if \<not> truthy text_data then Inr None
                    else (case text_data of
                            JStr s \<Rightarrow> Inr (parse_text_data s)
                          | _ \<Rightarrow> Inl (no_attribute text_data ''split'')))
            | _ \<Rightarrow> Inl (no_attribute response_data ''get'')))"

section \<open>API client\<close>

text \<open>
  One attempt of the loop of \<open>send_request\<close> is \<open>requests.post\<close>, \<open>raise_for_status\<close>
  and \<open>response.json()\<close>: it gives the decoded body or raises. What the network does at
  the attempt number \<open>i\<close> (from 0) is an input of the model.
\<close>

datatype attempt = Responds pyjson | Raises exn

fun retried :: "exn \<Rightarrow> bool" where
  "retried (RequestException d) = True"
| "retried e = False"

text \<open>
  The result of the call with what it cost: the number of requests made and the seconds
  slept in \<open>time.sleep\<close>.
\<close>

record sent_request =
  outcome :: "exn + pyjson"
  calls :: nat
  slept :: nat

text \<open>
  The loop \<open>for attempt in range(MAX_RETRIES)\<close> over the attempt numbers still to run;
  when they are used up the function returns \<open>None\<close>.
\<close>

fun retry_loop :: "int \<Rightarrow> (nat \<Rightarrow> attempt) \<Rightarrow> nat list \<Rightarrow> nat \<Rightarrow> nat \<Rightarrow> sent_request" where
  "retry_loop max_retries post [] n t = \<lparr>outcome = Inr JNone, calls = n, slept = t\<rparr>"
| "retry_loop max_retries post (attempt # rest) n t =
     (case post attempt of
        Responds body \<Rightarrow> \<lparr>outcome = Inr body, calls = n + 1, slept = t\<rparr>
      | Raises e \<Rightarrow>
          if retried e then
            (if int attempt = max_retries - 1
             then \<lparr>outcome = Inl e, calls = n + 1, slept = t\<rparr>
             else retry_loop max_retries post rest (n + 1) (t + 2 ^ attempt))
          else \<lparr>outcome = Inl e, calls = n + 1, slept = t\<rparr>)"

definition send_request :: "int \<Rightarrow> (nat \<Rightarrow> attempt) \<Rightarrow> sent_request" where
  "send_request max_retries post = retry_loop max_retries post [0..<nat max_retries] 0 0"

section \<open>Record store\<close>

text \<open>
  The two tables of \<open>DatabaseManager\<close>, as the lists of their rows in insertion order.
  \<open>name\<close> is \<open>NOT NULL\<close>; the other business columns may hold \<open>NULL\<close>.
\<close>

record company_row =
  c_id :: nat
  c_name :: pystr
  c_inn :: "pystr option"
  c_phone :: "pystr option"
  c_contact_person :: "pystr option"
  c_email :: "pystr option"
  c_created_at :: pystr

datatype ftype = Photo | Document | Audio | Video

record file_row =
  f_id :: nat
  f_company_id :: nat
  f_file_url :: pystr
  f_file_type :: ftype
  f_caption :: "pystr option"
  f_created_at :: pystr

text \<open>
  What the world outside the program does during one event: the interpreter's digit table,
  the configuration, the network, the Telegram file lookup, SQLite failing, the clock.
\<close>

record env =
  char_isdigit :: "nat \<Rightarrow> bool"
  MAX_RETRIES :: int
  TOKEN :: pystr
  http_post :: "nat \<Rightarrow> attempt"
  get_file :: "exn + pystr"
  insert_company_fault :: "exn option"
  insert_file_fault :: "exn option"
  select_fault :: "exn option"
  current_timestamp :: pystr

text \<open>
  \<open>save_company\<close>: the absent keys of the dict are inserted as \<open>NULL\<close>, the new row
  gets the next id and the current time. The insert fails when SQLite fails, or on a
  \<open>NULL\<close> name.
\<close>

definition save_company ::
  "env \<Rightarrow> company_row list \<Rightarrow> company_data \<Rightarrow> exn + nat \<times> company_row list" where
  "save_company e rows company_data =
     (case insert_company_fault e of
        Some err \<Rightarrow> Inl err
      | None \<Rightarrow>
          (case company_data Name of
             None \<Rightarrow> Inl (StoreError (ascii ''NOT NULL constraint failed: companies.name''))
           | Some n \<Rightarrow>
               (let company_id = length rows + 1
                in Inr (company_id,
                        rows @ [\<lparr>c_id = company_id, c_name = n, c_inn = company_data Inn,
                                 c_phone = company_data Phone,
                                 c_contact_person = company_data Contact_person,
                                 c_email = company_data Email,
                                 c_created_at = current_timestamp e\<rparr>]))))"

definition save_file ::
  "env \<Rightarrow> file_row list \<Rightarrow> nat \<Rightarrow> pystr \<Rightarrow> ftype \<Rightarrow> pystr option \<Rightarrow> exn + file_row list" where
  "save_file e rows company_id file_url file_type caption =
     (case insert_file_fault e of
        Some err \<Rightarrow> Inl err
      | None \<Rightarrow>
          Inr (rows @ [\<lparr>f_id = length rows + 1, f_company_id = company_id,
                        f_file_url = file_url, f_file_type = file_type, f_caption = caption,
                        f_created_at = current_timestamp e\<rparr>]))"

text \<open>
  SQLite's \<open>LIKE\<close>: \<open>%\<close> matches any run of characters, \<open>_\<close> one character, and the
  ASCII letters match without regard to case. A \<open>NULL\<close> column matches nothing.
\<close>

definition ascii_fold :: "nat \<Rightarrow> nat" where
  "ascii_fold c = (if 65 \<le> c \<and> c \<le> 90 then c + 32 else c)"

fun sql_like :: "pystr \<Rightarrow> pystr \<Rightarrow> bool" where
  "sql_like [] s = (s = [])"
| "sql_like (p # ps) [] = (p = 37 \<and> sql_like ps [])"
| "sql_like (p # ps) (c # cs) =
     (if p = 37 then sql_like ps (c # cs) \<or> sql_like (p # ps) cs
      else if p = 95 then sql_like ps cs
      else ascii_fold p = ascii_fold c \<and> sql_like ps cs)"

definition like_column :: "pystr \<Rightarrow> pystr option \<Rightarrow> bool" where
  "like_column pat col = (case col of None \<Rightarrow> False | Some s \<Rightarrow> sql_like pat s)"

text \<open>
  \<open>str.lower()\<close> on the Latin and Cyrillic capitals; the strings it is applied to are the
  three criteria the handlers store, which are in these alphabets.
\<close>

definition lower_cp :: "nat \<Rightarrow> nat" where
  "lower_cp c =
     (if 65 \<le> c \<and> c \<le> 90 then c + 32
      else if 1040 \<le> c \<and> c \<le> 1071 then c + 32
      else if 1024 \<le> c \<and> c \<le> 1039 then c + 80
      else c)"

definition py_lower :: "pystr \<Rightarrow> pystr" where
  "py_lower s = map lower_cp s"

definition crit_name :: pystr where
  "crit_name = [1085, 1072, 1079, 1074, 1072, 1085, 1080, 1102]"

definition crit_inn :: pystr where
  "crit_inn = [1080, 1085, 1085]"

definition crit_email :: pystr where
  "crit_email = [101, 109, 97, 105, 108]"

text \<open>\<open>field_map.get(...)\<close> of \<open>search_company\<close>, to the column it names.\<close>

definition field_map :: "pystr \<Rightarrow> (company_row \<Rightarrow> pystr option) option" where
  "field_map k =
     (if k = crit_name then Some (\<lambda>r. Some (c_name r))
      else if k = crit_inn then Some c_inn
      else if k = crit_email then Some c_email
      else None)"

text \<open>
  \<open>search_company\<close>; the criterion is the Python value stored in the search state, which
  may be \<open>None\<close> (then \<open>search_type.lower()\<close> raises).
\<close>

definition search_company ::
  "env \<Rightarrow> company_row list \<Rightarrow> pystr option \<Rightarrow> pystr \<Rightarrow> exn + company_row list" where
  "search_company e rows search_type search_value =
     (case search_type of
        None \<Rightarrow> Inl (no_attribute JNone ''lower'')
      | Some st \<Rightarrow>
          (case field_map (py_lower st) of
             None \<Rightarrow> Inr []
           | Some col \<Rightarrow>
               (case select_fault e of
                  Some err \<Rightarrow> Inl err
                | None \<Rightarrow>
                    Inr (filter (\<lambda>r. like_column ([37] @ search_value @ [37]) (col r)) rows))))"

text \<open>
  \<open>get_all_companies\<close>: the rows by \<open>created_at\<close>, latest first; rows with equal times
  come in the order of their insertion, as SQLite's sorter returns them.
\<close>

definition get_all_companies :: "env \<Rightarrow> company_row list \<Rightarrow> exn + company_row list" where
  "get_all_companies e rows =
     (case select_fault e of
        Some err \<Rightarrow> Inl err
      | None \<Rightarrow> Inr (rev (sort_key c_created_at (rev rows))))"

section \<open>Formatting\<close>

definition fmt_name :: pystr where
  "fmt_name = [1053, 1072, 1079, 1074, 1072, 1085, 1080, 1077, 58, 32]"

definition fmt_inn :: pystr where
  "fmt_inn = [1048, 1053, 1053, 58, 32]"

definition fmt_phone :: pystr where
  "fmt_phone = [1058, 1077, 1083, 1077, 1092, 1086, 1085, 58, 32]"

definition fmt_contact :: pystr where
  "fmt_contact = [1050, 1086, 1085, 1090, 1072, 1082, 1090, 1085, 1086, 1077, 32, 1083, 1080,
     1094, 1086, 58, 32]"

definition fmt_email :: pystr where
  "fmt_email = [69, 109, 97, 105, 108, 58, 32]"

definition fmt_created :: pystr where
  "fmt_created = [1044, 1072, 1090, 1072, 32, 1089, 1086, 1079, 1076, 1072, 1085, 1080, 1103,
     58, 32]"

text \<open>A column in an f-string: \<open>NULL\<close> is read as \<open>None\<close> and printed so.\<close>

definition str_col :: "pystr option \<Rightarrow> pystr" where
  "str_col v = (case v of None \<Rightarrow> ascii ''None'' | Some s \<Rightarrow> s)"

definition format_company_info :: "company_row \<Rightarrow> pystr" where
  "format_company_info company =
     fmt_name @ c_name company @ [10]
     @ fmt_inn @ str_col (c_inn company) @ [10]
     @ fmt_phone @ str_col (c_phone company) @ [10]
     @ fmt_contact @ str_col (c_contact_person company) @ [10]
     @ fmt_email @ str_col (c_email company) @ [10]
     @ fmt_created @ c_created_at company"

section \<open>Conversation state and messages\<close>

datatype step =
  Waiting_name | Waiting_inn | Waiting_phone | Waiting_contact | Waiting_email
  | Waiting_api_data

text \<open>
  An entry of \<open>user_states\<close>: the key \<open>state\<close>, and the key \<open>data\<close> when the entry was made
  by \<open>add_company_start\<close> (\<open>send_to_api_start\<close> makes an entry without it).
\<close>

record ustate =
  state :: step
  data :: "company_data option"

text \<open>
  An entry of \<open>search_states\<close>: for each of the two keys, \<open>None\<close> when the key is not in
  the dict, and otherwise the Python value stored under it, itself \<open>None\<close> or a string.
\<close>

record sstate =
  search_type :: "pystr option option"
  search_value :: "pystr option option"

datatype content = Text pystr | File ftype "pystr option" | Other_content

record msg =
  chat_id :: int
  message_id :: int
  content :: content

datatype markup = No_markup | Main_keyboard | Search_keyboard | Remove_keyboard

record sent =
  to_chat :: int
  reply_to_id :: "int option"
  body :: pystr
  reply_markup :: markup

record world =
  user_states :: "int \<rightharpoonup> ustate"
  search_states :: "int \<rightharpoonup> sstate"
  companies :: "company_row list"
  files :: "file_row list"
  outbox :: "sent list"
  requests_made :: nat
  seconds_slept :: nat

text \<open>\<open>bot.reply_to\<close> and \<open>bot.send_message\<close>: the transport takes the text.\<close>

definition reply_to :: "world \<Rightarrow> msg \<Rightarrow> pystr \<Rightarrow> markup \<Rightarrow> world" where
  "reply_to w message txt mk =
     w\<lparr>outbox := outbox w @ [\<lparr>to_chat = chat_id message, reply_to_id = Some (message_id message),
                               body = txt, reply_markup = mk\<rparr>]\<rparr>"

definition send_message :: "world \<Rightarrow> int \<Rightarrow> pystr \<Rightarrow> markup \<Rightarrow> world" where
  "send_message w chat txt mk =
     w\<lparr>outbox := outbox w @ [\<lparr>to_chat = chat, reply_to_id = None, body = txt,
                               reply_markup = mk\<rparr>]\<rparr>"

text \<open>The loop that sends a long text in pieces.\<close>

definition send_chunks :: "world \<Rightarrow> int \<Rightarrow> pystr \<Rightarrow> markup \<Rightarrow> world" where
  "send_chunks w chat response mk =
     foldl (\<lambda>w' piece. send_message w' chat piece mk) w (reply_chunks response)"

section \<open>Texts of the bot\<close>

definition btn_add_company :: pystr where
  "btn_add_company = [1044, 1086, 1073, 1072, 1074, 1080, 1090, 1100, 32, 1082, 1086, 1084,
     1087, 1072, 1085, 1080, 1102]"

definition btn_find_company :: pystr where
  "btn_find_company = [1053, 1072, 1081, 1090, 1080, 32, 1082, 1086, 1084, 1087, 1072, 1085,
     1080, 1102]"

definition btn_send_to_api :: pystr where
  "btn_send_to_api = [1054, 1090, 1087, 1088, 1072, 1074, 1080, 1090, 1100, 32, 1076, 1072,
     1085, 1085, 1099, 1077, 32, 1074, 32, 65, 80, 73]"

definition btn_show_all :: pystr where
  "btn_show_all = [1055, 1086, 1082, 1072, 1079, 1072, 1090, 1100, 32, 1074, 1089, 1077, 32,
     1082, 1086, 1084, 1087, 1072, 1085, 1080, 1080]"

definition btn_help :: pystr where
  "btn_help = [1055, 1086, 1084, 1086, 1097, 1100]"

definition btn_by_name :: pystr where
  "btn_by_name = [1055, 1086, 32, 1085, 1072, 1079, 1074, 1072, 1085, 1080, 1102]"

definition btn_by_inn :: pystr where
  "btn_by_inn = [1055, 1086, 32, 1048, 1053, 1053]"

definition btn_by_email :: pystr where
  "btn_by_email = [1055, 1086, 32, 101, 109, 97, 105, 108]"

definition txt_greeting :: pystr where
  "txt_greeting = [1055, 1088, 1080, 1074, 1077, 1090, 33, 32, 1042, 1099, 1073, 1077, 1088,
     1080, 1090, 1077, 32, 1076, 1077, 1081, 1089, 1090, 1074, 1080, 1077, 58]"

definition txt_help :: pystr where
  "txt_help = [10, 32, 32, 32, 32, 1069, 1090, 1086, 1090, 32, 1073, 1086, 1090, 32, 1087,
     1086, 1084, 1086, 1075, 1072, 1077, 1090, 32, 1088, 1072, 1073, 1086, 1090, 1072, 1090,
     1100, 32, 1089, 32, 1076, 1072, 1085, 1085, 1099, 1084, 1080, 32, 1082, 1086, 1084,
     1087, 1072, 1085, 1080, 1081, 46, 10, 32, 32, 32, 32, 1044, 1086, 1089, 1090, 1091,
     1087, 1085, 1099, 1077, 32, 1082, 1086, 1084, 1072, 1085, 1076, 1099, 58, 10, 32, 32,
     32, 32, 45, 32, 1044, 1086, 1073, 1072, 1074, 1080, 1090, 1100, 32, 1082, 1086, 1084,
     1087, 1072, 1085, 1080, 1102, 32, 45, 32, 1074, 1085, 1077, 1089, 1090, 1080, 32, 1085,
     1086, 1074, 1091, 1102, 32, 1082, 1086, 1084, 1087, 1072, 1085, 1080, 1102, 32, 1074,
     32, 1073, 1072, 1079, 1091, 10, 32, 32, 32, 32, 45, 32, 1053, 1072, 1081, 1090, 1080,
     32, 1082, 1086, 1084, 1087, 1072, 1085, 1080, 1102, 32, 45, 32, 1087, 1086, 1080, 1089,
     1082, 32, 1087, 1086, 32, 1089, 1091, 1097, 1077, 1089, 1090, 1074, 1091, 1102, 1097,
     1080, 1084, 32, 1082, 1086, 1084, 1087, 1072, 1085, 1080, 1103, 1084, 10, 32, 32, 32,
     32, 45, 32, 1054, 1090, 1087, 1088, 1072, 1074, 1080, 1090, 1100, 32, 1076, 1072, 1085,
     1085, 1099, 1077, 32, 1074, 32, 65, 80, 73, 32, 45, 32, 1086, 1090, 1087, 1088, 1072,
     1074, 1080, 1090, 1100, 32, 1076, 1072, 1085, 1085, 1099, 1077, 32, 1076, 1083, 1103,
     32, 1086, 1073, 1088, 1072, 1073, 1086, 1090, 1082, 1080, 32, 1080, 32, 1072, 1074,
     1090, 1086, 1084, 1072, 1090, 1080, 1095, 1077, 1089, 1082, 1086, 1075, 1086, 32, 1089,
     1086, 1079, 1076, 1072, 1085, 1080, 1103, 32, 1082, 1086, 1084, 1087, 1072, 1085, 1080,
     1080, 10, 32, 32, 32, 32, 45, 32, 1055, 1086, 1082, 1072, 1079, 1072, 1090, 1100, 32,
     1074, 1089, 1077, 32, 1082, 1086, 1084, 1087, 1072, 1085, 1080, 1080, 32, 45, 32, 1086,
     1090, 1086, 1073, 1088, 1072, 1079, 1080, 1090, 1100, 32, 1089, 1087, 1080, 1089, 1086,
     1082, 32, 1074, 1089, 1077, 1093, 32, 1082, 1086, 1084, 1087, 1072, 1085, 1080, 1081,
     32, 1074, 32, 1073, 1072, 1079, 1077, 10, 32, 32, 32, 32]"

definition txt_enter_name :: pystr where
  "txt_enter_name = [1042, 1074, 1077, 1076, 1080, 1090, 1077, 32, 1085, 1072, 1079, 1074,
     1072, 1085, 1080, 1077, 32, 1082, 1086, 1084, 1087, 1072, 1085, 1080, 1080, 58]"

definition txt_no_companies :: pystr where
  "txt_no_companies = [1042, 32, 1073, 1072, 1079, 1077, 32, 1076, 1072, 1085, 1085, 1099,
     1093, 32, 1085, 1077, 1090, 32, 1082, 1086, 1084, 1087, 1072, 1085, 1080, 1081, 46]"

definition txt_list_header :: pystr where
  "txt_list_header = [1057, 1087, 1080, 1089, 1086, 1082, 32, 1082, 1086, 1084, 1087, 1072,
     1085, 1080, 1081, 58, 10, 10]"

definition txt_choose_criterion :: pystr where
  "txt_choose_criterion = [1042, 1099, 1073, 1077, 1088, 1080, 1090, 1077, 32, 1082, 1088,
     1080, 1090, 1077, 1088, 1080, 1081, 32, 1087, 1086, 1080, 1089, 1082, 1072, 58]"

definition txt_enter_value_prefix :: pystr where
  "txt_enter_value_prefix = [1042, 1074, 1077, 1076, 1080, 1090, 1077, 32, 1079, 1085, 1072,
     1095, 1077, 1085, 1080, 1077, 32, 1076, 1083, 1103, 32, 1087, 1086, 1080, 1089, 1082,
     1072, 32, 1087, 1086, 32]"

definition txt_not_found :: pystr where
  "txt_not_found = [1050, 1086, 1084, 1087, 1072, 1085, 1080, 1080, 32, 1085, 1077, 32, 1085,
     1072, 1081, 1076, 1077, 1085, 1099, 46]"

definition txt_found_prefix :: pystr where
  "txt_found_prefix = [1053, 1072, 1081, 1076, 1077, 1085, 1086, 32, 1082, 1086, 1084, 1087,
     1072, 1085, 1080, 1081, 58, 32]"

definition txt_enter_inn :: pystr where
  "txt_enter_inn = [1042, 1074, 1077, 1076, 1080, 1090, 1077, 32, 1048, 1053, 1053, 32, 1082,
     1086, 1084, 1087, 1072, 1085, 1080, 1080, 32, 40, 49, 48, 32, 1080, 1083, 1080, 32, 49,
     50, 32, 1094, 1080, 1092, 1088, 41, 58]"

definition txt_bad_inn :: pystr where
  "txt_bad_inn = [1053, 1077, 1082, 1086, 1088, 1088, 1077, 1082, 1090, 1085, 1099, 1081, 32,
     1048, 1053, 1053, 46, 32, 1042, 1074, 1077, 1076, 1080, 1090, 1077, 32, 49, 48, 32,
     1080, 1083, 1080, 32, 49, 50, 32, 1094, 1080, 1092, 1088, 58]"

definition txt_enter_phone :: pystr where
  "txt_enter_phone = [1042, 1074, 1077, 1076, 1080, 1090, 1077, 32, 1090, 1077, 1083, 1077,
     1092, 1086, 1085, 32, 1082, 1086, 1084, 1087, 1072, 1085, 1080, 1080, 58]"

definition txt_bad_phone :: pystr where
  "txt_bad_phone = [1053, 1077, 1082, 1086, 1088, 1088, 1077, 1082, 1090, 1085, 1099, 1081,
     32, 1090, 1077, 1083, 1077, 1092, 1086, 1085, 46, 32, 1042, 1074, 1077, 1076, 1080,
     1090, 1077, 32, 1085, 1086, 1084, 1077, 1088, 32, 1074, 32, 1092, 1086, 1088, 1084,
     1072, 1090, 1077, 32, 43, 55, 88, 88, 88, 88, 88, 88, 88, 88, 88, 88, 32, 1080, 1083,
     1080, 32, 56, 88, 88, 88, 88, 88, 88, 88, 88, 88, 88, 58]"

definition txt_enter_contact :: pystr where
  "txt_enter_contact = [1042, 1074, 1077, 1076, 1080, 1090, 1077, 32, 1082, 1086, 1085, 1090,
     1072, 1082, 1090, 1085, 1086, 1077, 32, 1083, 1080, 1094, 1086, 58]"

definition txt_enter_email :: pystr where
  "txt_enter_email = [1042, 1074, 1077, 1076, 1080, 1090, 1077, 32, 101, 109, 97, 105, 108,
     32, 1082, 1086, 1084, 1087, 1072, 1085, 1080, 1080, 58]"

definition txt_bad_email :: pystr where
  "txt_bad_email = [1053, 1077, 1082, 1086, 1088, 1088, 1077, 1082, 1090, 1085, 1099, 1081,
     32, 101, 109, 97, 105, 108, 46, 32, 1042, 1074, 1077, 1076, 1080, 1090, 1077, 32, 101,
     109, 97, 105, 108, 32, 1074, 32, 1092, 1086, 1088, 1084, 1072, 1090, 1077, 32, 101,
     120, 97, 109, 112, 108, 101, 64, 100, 111, 109, 97, 105, 110, 46, 99, 111, 109, 58]"

definition txt_saved :: pystr where
  "txt_saved = [9989, 32, 1050, 1086, 1084, 1087, 1072, 1085, 1080, 1103, 32, 1091, 1089,
     1087, 1077, 1096, 1085, 1086, 32, 1089, 1086, 1093, 1088, 1072, 1085, 1077, 1085, 1072,
     33]"

definition txt_save_error_prefix :: pystr where
  "txt_save_error_prefix = [9888, 65039, 32, 1054, 1096, 1080, 1073, 1082, 1072, 32, 1087,
     1088, 1080, 32, 1089, 1086, 1093, 1088, 1072, 1085, 1077, 1085, 1080, 1080, 32, 1082,
     1086, 1084, 1087, 1072, 1085, 1080, 1080, 58, 32]"

definition txt_enter_api_data :: pystr where
  "txt_enter_api_data = [1054, 1090, 1087, 1088, 1072, 1074, 1100, 1090, 1077, 32, 1089, 1086,
     1086, 1073, 1097, 1077, 1085, 1080, 1077, 32, 1080, 1083, 1080, 32, 1092, 1072, 1081,
     1083, 32, 1089, 32, 1076, 1072, 1085, 1085, 1099, 1084, 1080, 32, 1082, 1086, 1084,
     1087, 1072, 1085, 1080, 1080, 32, 1076, 1083, 1103, 32, 1086, 1073, 1088, 1072, 1073,
     1086, 1090, 1082, 1080, 32, 65, 80, 73, 58]"

definition txt_api_added :: pystr where
  "txt_api_added = [9989, 32, 1050, 1086, 1084, 1087, 1072, 1085, 1080, 1103, 32, 1091, 1089,
     1087, 1077, 1096, 1085, 1086, 32, 1076, 1086, 1073, 1072, 1074, 1083, 1077, 1085, 1072,
     32, 1080, 1079, 32, 65, 80, 73, 33]"

definition txt_api_no_data :: pystr where
  "txt_api_no_data = [8505, 65039, 32, 65, 80, 73, 32, 1085, 1077, 32, 1074, 1077, 1088, 1085,
     1091, 1083, 32, 1076, 1072, 1085, 1085, 1099, 1093, 32, 1082, 1086, 1084, 1087, 1072,
     1085, 1080, 1080, 32, 1074, 32, 1090, 1088, 1077, 1073, 1091, 1077, 1084, 1086, 1084,
     32, 1092, 1086, 1088, 1084, 1072, 1090, 1077]"

definition txt_error_prefix :: pystr where
  "txt_error_prefix = [9888, 65039, 32, 1054, 1096, 1080, 1073, 1082, 1072, 58, 32]"

section \<open>Handlers\<close>

text \<open>
  A handler takes the world and the message and leaves the world as it made it, with the
  exception that escaped from it, if one did. The handlers of text messages also take the
  text (\<open>message.text\<close>).
\<close>

type_synonym handled = "world \<times> exn option"

definition str_int :: "int \<Rightarrow> pystr" where
  "str_int i = (if i < 0 then 45 # str_nat (nat (- i)) else str_nat (nat i))"

definition key_error :: "string \<Rightarrow> exn" where
  "key_error k = KeyError (ascii [CHR 39] @ ascii k @ ascii [CHR 39])"

definition start_message :: "world \<Rightarrow> msg \<Rightarrow> handled" where
  "start_message w message = (reply_to w message txt_greeting Main_keyboard, None)"

definition help_message :: "world \<Rightarrow> msg \<Rightarrow> handled" where
  "help_message w message = (reply_to w message txt_help No_markup, None)"

definition add_company_start :: "world \<Rightarrow> msg \<Rightarrow> handled" where
  "add_company_start w message =
     (reply_to
        (w\<lparr>user_states := (user_states w)
              (chat_id message \<mapsto> \<lparr>state = Waiting_name, data = Some Map.empty\<rparr>)\<rparr>)
        message txt_enter_name Remove_keyboard,
      None)"

text \<open>The text \<open>show_all_companies\<close> builds for the rows found.\<close>

definition list_response :: "company_row list \<Rightarrow> pystr" where
  "list_response found =
     txt_list_header
     @ concat (map (\<lambda>company. format_company_info company @ [10, 10]) found)"

definition show_all_companies :: "env \<Rightarrow> world \<Rightarrow> msg \<Rightarrow> handled" where
  "show_all_companies e w message =
     (case get_all_companies e (companies w) of
        Inl err \<Rightarrow> (w, Some err)
      | Inr found \<Rightarrow>
          if found = [] then (reply_to w message txt_no_companies No_markup, None)
          else (send_chunks w (chat_id message) (list_response found) No_markup, None))"

definition search_company_start :: "world \<Rightarrow> msg \<Rightarrow> handled" where
  "search_company_start w message =
     (reply_to
        (w\<lparr>search_states := (search_states w)
              (chat_id message \<mapsto> \<lparr>search_type = Some None, search_value = Some None\<rparr>)\<rparr>)
        message txt_choose_criterion Search_keyboard,
      None)"

definition set_search_type :: "world \<Rightarrow> msg \<Rightarrow> pystr \<Rightarrow> handled" where
  "set_search_type w message txt =
     (let entry0 = (case search_states w (chat_id message) of
                      None \<Rightarrow> \<lparr>search_type = None, search_value = None\<rparr>
                    | Some s \<Rightarrow> s);
          entry1 = (if txt = btn_by_name then entry0\<lparr>search_type := Some (Some crit_name)\<rparr>
                    else if txt = btn_by_inn then entry0\<lparr>search_type := Some (Some crit_inn)\<rparr>
                    else if txt = btn_by_email
                      then entry0\<lparr>search_type := Some (Some crit_email)\<rparr>
                    else entry0);
          w1 = w\<lparr>search_states := (search_states w)(chat_id message \<mapsto> entry1)\<rparr>
      in case search_type entry1 of
           None \<Rightarrow> (w1, Some (key_error ''search_type''))
         | Some v \<Rightarrow>
             (reply_to w1 message (txt_enter_value_prefix @ str_col v @ [58]) Remove_keyboard,
              None))"

text \<open>The text \<open>perform_search\<close> builds for the rows found.\<close>

definition search_response :: "company_row list \<Rightarrow> pystr" where
  "search_response found =
     txt_found_prefix @ str_nat (length found) @ [10, 10]
     @ concat (map (\<lambda>company. format_company_info company @ [10, 10]) found)"

definition perform_search :: "env \<Rightarrow> world \<Rightarrow> msg \<Rightarrow> pystr \<Rightarrow> handled" where
  "perform_search e w message txt =
     (case search_states w (chat_id message) of
        None \<Rightarrow> (w, Some (KeyError (str_int (chat_id message))))
      | Some s \<Rightarrow>
          (case search_type s of
             None \<Rightarrow> (w, Some (key_error ''search_type''))
           | Some st \<Rightarrow>
               (case search_company e (companies w) st txt of
                  Inl err \<Rightarrow> (w, Some err)
                | Inr found \<Rightarrow>
                    (let w1 =
                       (if found = []
                        then reply_to w message txt_not_found Main_keyboard
                        else send_chunks w (chat_id message) (search_response found)
                               Main_keyboard)
                     in (w1\<lparr>search_states := (search_states w1)(chat_id message := None)\<rparr>,
                         None)))))"

text \<open>
  \<open>user_states[chat_id]['data'][key] = value\<close>, and after it, where the handler has it,
  \<open>user_states[chat_id]['state'] = next\<close>. A missing chat or a missing \<open>data\<close> raises
  \<open>KeyError\<close> before anything is written.
\<close>

definition collect :: "world \<Rightarrow> int \<Rightarrow> field \<Rightarrow> pystr \<Rightarrow> step option \<Rightarrow> exn + world" where
  "collect w chat k v nxt =
     (case user_states w chat of
        None \<Rightarrow> Inl (KeyError (str_int chat))
      | Some u \<Rightarrow>
          (case data u of
             None \<Rightarrow> Inl (key_error ''data'')
           | Some d \<Rightarrow>
               Inr (w\<lparr>user_states := (user_states w)
                        (chat \<mapsto> \<lparr>state = (case nxt of None \<Rightarrow> state u | Some s \<Rightarrow> s),
                                  data = Some (d(k \<mapsto> v))\<rparr>)\<rparr>)))"

definition process_company_name :: "world \<Rightarrow> msg \<Rightarrow> pystr \<Rightarrow> handled" where
  "process_company_name w message txt =
     (case collect w (chat_id message) Name txt (Some Waiting_inn) of
        Inl err \<Rightarrow> (w, Some err)
      | Inr w1 \<Rightarrow> (reply_to w1 message txt_enter_inn No_markup, None))"

definition process_company_inn :: "env \<Rightarrow> world \<Rightarrow> msg \<Rightarrow> pystr \<Rightarrow> handled" where
  "process_company_inn e w message inn =
     (if \<not> validate_inn (char_isdigit e) inn
      then (reply_to w message txt_bad_inn No_markup, None)
      else (case collect w (chat_id message) Inn inn (Some Waiting_phone) of
              Inl err \<Rightarrow> (w, Some err)
            | Inr w1 \<Rightarrow> (reply_to w1 message txt_enter_phone No_markup, None)))"

definition process_company_phone :: "env \<Rightarrow> world \<Rightarrow> msg \<Rightarrow> pystr \<Rightarrow> handled" where
  "process_company_phone e w message phone =
     (if \<not> validate_phone (char_isdigit e) phone
      then (reply_to w message txt_bad_phone No_markup, None)
      else (case collect w (chat_id message) Phone phone (Some Waiting_contact) of
              Inl err \<Rightarrow> (w, Some err)
            | Inr w1 \<Rightarrow> (reply_to w1 message txt_enter_contact No_markup, None)))"

definition process_company_contact :: "world \<Rightarrow> msg \<Rightarrow> pystr \<Rightarrow> handled" where
  "process_company_contact w message txt =
     (case collect w (chat_id message) Contact_person txt (Some Waiting_email) of
        Inl err \<Rightarrow> (w, Some err)
      | Inr w1 \<Rightarrow> (reply_to w1 message txt_enter_email No_markup, None))"

definition process_company_email :: "env \<Rightarrow> world \<Rightarrow> msg \<Rightarrow> pystr \<Rightarrow> handled" where
  "process_company_email e w message email =
     (if \<not> validate_email email
      then (reply_to w message txt_bad_email No_markup, None)
      else (case collect w (chat_id message) Email email None of
              Inl err \<Rightarrow> (w, Some err)
            | Inr w1 \<Rightarrow>
                (let company_data =
                       (case user_states w1 (chat_id message) of
                          None \<Rightarrow> Map.empty
                        | Some u \<Rightarrow> (case data u of None \<Rightarrow> Map.empty | Some d \<Rightarrow> d));
                     w2 = (case save_company e (companies w1) company_data of
                             Inr (company_id, rows) \<Rightarrow>
                               reply_to (w1\<lparr>companies := rows\<rparr>) message txt_saved Main_keyboard
                           | Inl err \<Rightarrow>
                               reply_to w1 message (txt_save_error_prefix @ str_exn err)
                                 Main_keyboard)
                 in (w2\<lparr>user_states := (user_states w2)(chat_id message := None)\<rparr>, None))))"

definition send_to_api_start :: "world \<Rightarrow> msg \<Rightarrow> handled" where
  "send_to_api_start w message =
     (reply_to
        (w\<lparr>user_states := (user_states w)
              (chat_id message \<mapsto> \<lparr>state = Waiting_api_data, data = None\<rparr>)\<rparr>)
        message txt_enter_api_data Remove_keyboard,
      None)"

text \<open>\<open>if company_data:\<close> is true for a dict that is not empty.\<close>

definition dict_truthy :: "company_data option \<Rightarrow> bool" where
  "dict_truthy company_data =
     (case company_data of
        None \<Rightarrow> False
      | Some d \<Rightarrow> list_ex (\<lambda>f. d f \<noteq> None) [Name, Inn, Phone, Contact_person, Email])"

text \<open>The call of the API client, with its requests and its sleeping written to the world.\<close>

definition call_api :: "env \<Rightarrow> world \<Rightarrow> world \<times> (exn + pyjson)" where
  "call_api e w =
     (let r = send_request (MAX_RETRIES e) (http_post e)
      in (w\<lparr>requests_made := requests_made w + calls r,
             seconds_slept := seconds_slept w + slept r\<rparr>,
          outcome r))"

definition error_reply :: "world \<Rightarrow> msg \<Rightarrow> exn \<Rightarrow> world" where
  "error_reply w message err =
     reply_to w message (txt_error_prefix @ str_exn err) Main_keyboard"

definition process_text_for_api :: "env \<Rightarrow> world \<Rightarrow> msg \<Rightarrow> pystr \<Rightarrow> handled" where
  "process_text_for_api e w message txt =
     (let (w0, response) = call_api e w;
          w1 = (case response of
                  Inl err \<Rightarrow> error_reply w0 message err
                | Inr response_data \<Rightarrow>
                    (case parse_api_response response_data of
                       Inl err \<Rightarrow> error_reply w0 message err
                     | Inr company_data \<Rightarrow>
                         if dict_truthy company_data then
                           (case save_company e (companies w0) (the company_data) of
                              Inl err \<Rightarrow> error_reply w0 message err
                            | Inr (company_id, rows) \<Rightarrow>
                                reply_to (w0\<lparr>companies := rows\<rparr>) message txt_api_added
                                  Main_keyboard)
                         else reply_to w0 message txt_api_no_data Main_keyboard))
      in (w1\<lparr>user_states := (user_states w1)(chat_id message := None)\<rparr>, None))"

definition process_files_for_api ::
  "env \<Rightarrow> world \<Rightarrow> msg \<Rightarrow> ftype \<Rightarrow> pystr option \<Rightarrow> handled" where
  "process_files_for_api e w message file_type caption =
     (let w1 =
        (case get_file e of
           Inl err \<Rightarrow> error_reply w message err
         | Inr file_path \<Rightarrow>
             (let file_url = ascii ''https://api.telegram.org/file/bot'' @ TOKEN e @ [47]
                             @ file_path;
                  (w0, response) = call_api e w
              in case response of
                   Inl err \<Rightarrow> error_reply w0 message err
                 | Inr response_data \<Rightarrow>
                     (case parse_api_response response_data of
                        Inl err \<Rightarrow> error_reply w0 message err
                      | Inr company_data \<Rightarrow>
                          if dict_truthy company_data then
                            (case save_company e (companies w0) (the company_data) of
                               Inl err \<Rightarrow> error_reply w0 message err
                             | Inr (company_id, rows) \<Rightarrow>
                                 (case save_file e (files w0) company_id file_url file_type
                                         caption of
                                    Inl err \<Rightarrow> error_reply (w0\<lparr>companies := rows\<rparr>) message err
                                  | Inr frows \<Rightarrow>
                                      reply_to (w0\<lparr>companies := rows, files := frows\<rparr>)
                                        message txt_api_added Main_keyboard))
                          else reply_to w0 message txt_api_no_data Main_keyboard)))
      in (w1\<lparr>user_states := (user_states w1)(chat_id message := None)\<rparr>, None))"

section \<open>Dispatch\<close>

text \<open>
  The library tries the handlers in the order the file registers them and runs the first
  one whose filters pass. A handler registered without \<open>content_types\<close> takes text
  messages only, so the fourteen handlers below see text messages and
  \<open>process_files_for_api\<close> sees the four kinds of file.
\<close>

datatype handler =
    Start_message | Help_message | Add_company_start | Show_all_companies
  | Search_company_start | Set_search_type | Perform_search
  | Process_company_name | Process_company_inn | Process_company_phone
  | Process_company_contact | Process_company_email
  | Send_to_api_start | Process_text_for_api

definition text_handlers :: "handler list" where
  "text_handlers =
     [Start_message, Help_message, Add_company_start, Show_all_companies,
      Search_company_start, Set_search_type, Perform_search,
      Process_company_name, Process_company_inn, Process_company_phone,
      Process_company_contact, Process_company_email,
      Send_to_api_start, Process_text_for_api]"

text \<open>
  The filter \<open>commands=['start']\<close>: the library takes the first word of a text that
  starts with a slash, cuts it at \<open>@\<close> and drops the slash.
\<close>

definition extract_command :: "pystr \<Rightarrow> pystr option" where
  "extract_command txt =
     (if py_startswith txt [47]
      then Some (tl (takeWhile (\<lambda>c. c \<noteq> 64) (takeWhile (\<lambda>c. \<not> py_isspace c) txt)))
      else None)"

definition in_state :: "world \<Rightarrow> int \<Rightarrow> step \<Rightarrow> bool" where
  "in_state w chat s = (case user_states w chat of None \<Rightarrow> False | Some u \<Rightarrow> state u = s)"

text \<open>
  The filter of \<open>perform_search\<close>: the chat has an entry with the key \<open>search_type\<close> and
  without the key \<open>search_value\<close>.
\<close>

definition search_pending :: "world \<Rightarrow> int \<Rightarrow> bool" where
  "search_pending w chat =
     (case search_states w chat of
        None \<Rightarrow> False
      | Some s \<Rightarrow> search_type s \<noteq> None \<and> search_value s = None)"

fun test_handler :: "world \<Rightarrow> msg \<Rightarrow> pystr \<Rightarrow> handler \<Rightarrow> bool" where
  "test_handler w m txt Start_message = (extract_command txt = Some (ascii ''start''))"
| "test_handler w m txt Help_message = (txt = btn_help)"
| "test_handler w m txt Add_company_start = (txt = btn_add_company)"
| "test_handler w m txt Show_all_companies = (txt = btn_show_all)"
| "test_handler w m txt Search_company_start = (txt = btn_find_company)"
| "test_handler w m txt Set_search_type = (txt \<in> set [btn_by_name, btn_by_inn, btn_by_email])"
| "test_handler w m txt Perform_search = search_pending w (chat_id m)"
| "test_handler w m txt Process_company_name = in_state w (chat_id m) Waiting_name"
| "test_handler w m txt Process_company_inn = in_state w (chat_id m) Waiting_inn"
| "test_handler w m txt Process_company_phone = in_state w (chat_id m) Waiting_phone"
| "test_handler w m txt Process_company_contact = in_state w (chat_id m) Waiting_contact"
| "test_handler w m txt Process_company_email = in_state w (chat_id m) Waiting_email"
| "test_handler w m txt Send_to_api_start = (txt = btn_send_to_api)"
| "test_handler w m txt Process_text_for_api = in_state w (chat_id m) Waiting_api_data"

fun exec_handler :: "env \<Rightarrow> handler \<Rightarrow> world \<Rightarrow> msg \<Rightarrow> pystr \<Rightarrow> handled" where
  "exec_handler e Start_message w m txt = start_message w m"
| "exec_handler e Help_message w m txt = help_message w m"
| "exec_handler e Add_company_start w m txt = add_company_start w m"
| "exec_handler e Show_all_companies w m txt = show_all_companies e w m"
| "exec_handler e Search_company_start w m txt = search_company_start w m"
| "exec_handler e Set_search_type w m txt = set_search_type w m txt"
| "exec_handler e Perform_search w m txt = perform_search e w m txt"
| "exec_handler e Process_company_name w m txt = process_company_name w m txt"
| "exec_handler e Process_company_inn w m txt = process_company_inn e w m txt"
| "exec_handler e Process_company_phone w m txt = process_company_phone e w m txt"
| "exec_handler e Process_company_contact w m txt = process_company_contact w m txt"
| "exec_handler e Process_company_email w m txt = process_company_email e w m txt"
| "exec_handler e Send_to_api_start w m txt = send_to_api_start w m"
| "exec_handler e Process_text_for_api w m txt = process_text_for_api e w m txt"

definition route :: "world \<Rightarrow> msg \<Rightarrow> pystr \<Rightarrow> handler option" where
  "route w m txt = find (test_handler w m txt) text_handlers"

text \<open>One inbound message; a message no handler takes is dropped.\<close>

definition handle :: "env \<Rightarrow> world \<Rightarrow> msg \<Rightarrow> handled" where
  "handle e w m =
     (case content m of
        Text txt \<Rightarrow>
          (case route w m txt of
             None \<Rightarrow> (w, None)
           | Some h \<Rightarrow> exec_handler e h w m txt)
      | File file_type caption \<Rightarrow>
          if in_state w (chat_id m) Waiting_api_data
          then process_files_for_api e w m file_type caption
          else (w, None)
      | Other_content \<Rightarrow> (w, None))"

text \<open>
  The polling loop over the messages as they come, each with what the outside world does
  while it is handled; the loop goes on after a handler's exception.
\<close>

definition run :: "world \<Rightarrow> (env \<times> msg) list \<Rightarrow> world" where
  "run w events = foldl (\<lambda>w' (e, m). fst (handle e w' m)) w events"

definition idle_world :: world where
  "idle_world =
     \<lparr>user_states = Map.empty, search_states = Map.empty, companies = [], files = [],
      outbox = [], requests_made = 0, seconds_slept = 0\<rparr>"

text \<open>An outside world in which nothing fails and the API answers with an empty dict.\<close>

definition quiet_env :: env where
  "quiet_env =
     \<lparr>char_isdigit = ascii_digit, MAX_RETRIES = 3, TOKEN = [],
      http_post = (\<lambda>i. Responds (JDict [])), get_file = Inr [],
      insert_company_fault = None, insert_file_fault = None, select_fault = None,
      current_timestamp = ascii ''2024-01-01 00:00:00''\<rparr>"

text \<open>A text message, and a store with one company, for evaluating the handlers.\<close>

definition text_msg :: "int \<Rightarrow> int \<Rightarrow> pystr \<Rightarrow> msg" where
  "text_msg chat n txt = \<lparr>chat_id = chat, message_id = n, content = Text txt\<rparr>"

definition acme_row :: company_row where
  "acme_row =
     \<lparr>c_id = 1, c_name = ascii ''Acme'', c_inn = Some (ascii ''7701234567''),
      c_phone = None, c_contact_person = None, c_email = Some (ascii ''info@acme.ru''),
      c_created_at = ascii ''2024-01-01 00:00:00''\<rparr>"


section \<open>Notions used in the statements\<close>


text \<open>An attempt that fails with an exception \<open>send_request\<close> retries.\<close>

definition fails_transport :: "attempt \<Rightarrow> bool" where
  "fails_transport a = (case a of Raises err \<Rightarrow> retried err | Responds b \<Rightarrow> False)"

text \<open>Texts in the strict format, for evaluating the parser.\<close>

definition complete_text :: pystr where
  "complete_text =
     py_join 10 [lbl_name @ ascii '' Acme'', lbl_inn @ ascii '' 7701234567'',
                 lbl_email @ ascii '' info@acme.ru'']"




definition empty_done_response :: "(pystr \<times> pyjson) list" where
  "empty_done_response = [(ascii ''done'', JStr []), (ascii ''message'', JStr complete_text)]"

text \<open>The record \<open>complete_text\<close> holds.\<close>

definition complete_record :: company_data where
  "complete_record =
     [Name \<mapsto> ascii ''Acme'', Inn \<mapsto> ascii ''7701234567'', Email \<mapsto> ascii ''info@acme.ru'']"

text \<open>The texts sent between two worlds, the later one reached from the earlier.\<close>

definition replies_since :: "world \<Rightarrow> world \<Rightarrow> pystr list" where
  "replies_since w w' = map body (drop (length (outbox w)) (outbox w'))"

text \<open>
  The texts taken by a handler that stands before the handlers of the steps: the
  \<open>/start\<close> command, four labels of the main menu and the three criteria.
\<close>

definition served_first :: "pystr \<Rightarrow> bool" where
  "served_first txt =
     (extract_command txt = Some (ascii ''start'')
      \<or> txt \<in> set [btn_help, btn_add_company, btn_show_all, btn_find_company,
                    btn_by_name, btn_by_inn, btn_by_email])"

text \<open>The handler whose filter names the step.\<close>

fun step_handler :: "step \<Rightarrow> handler" where
  "step_handler Waiting_name = Process_company_name"
| "step_handler Waiting_inn = Process_company_inn"
| "step_handler Waiting_phone = Process_company_phone"
| "step_handler Waiting_contact = Process_company_contact"
| "step_handler Waiting_email = Process_company_email"
| "step_handler Waiting_api_data = Process_text_for_api"

text \<open>What \<open>send_request\<close> gives in an outside world.\<close>

definition api_outcome :: "env \<Rightarrow> exn + pyjson" where
  "api_outcome e = outcome (send_request (MAX_RETRIES e) (http_post e))"

text \<open>
  The inputs of the API flow: for a chat that waits for the input, a text that no handler
  registered before \<open>process_text_for_api\<close> takes, or a file.
\<close>

definition api_text_input :: "world \<Rightarrow> msg \<Rightarrow> pystr \<Rightarrow> bool" where
  "api_text_input w m t =
     (content m = Text t \<and> in_state w (chat_id m) Waiting_api_data \<and> \<not> served_first t
      \<and> \<not> search_pending w (chat_id m) \<and> t \<noteq> btn_send_to_api)"

definition api_file_input :: "world \<Rightarrow> msg \<Rightarrow> ftype \<Rightarrow> pystr option \<Rightarrow> bool" where
  "api_file_input w m file_type caption =
     (content m = File file_type caption \<and> in_state w (chat_id m) Waiting_api_data)"

text \<open>
  The row a store of \<open>k\<close> companies must hold after the record \<open>d\<close> with the name \<open>n\<close>
  was persisted, and the row of the attachment that goes with it.
\<close>

definition persisted_row :: "env \<Rightarrow> nat \<Rightarrow> pystr \<Rightarrow> company_data \<Rightarrow> company_row" where
  "persisted_row e k n d =
     \<lparr>c_id = k + 1, c_name = n, c_inn = d Inn, c_phone = d Phone,
      c_contact_person = d Contact_person, c_email = d Email,
      c_created_at = current_timestamp e\<rparr>"

definition attachment_row ::
  "env \<Rightarrow> nat \<Rightarrow> nat \<Rightarrow> pystr \<Rightarrow> ftype \<Rightarrow> pystr option \<Rightarrow> file_row" where
  "attachment_row e k company_id path file_type caption =
     \<lparr>f_id = k + 1, f_company_id = company_id,
      f_file_url = ascii ''https://api.telegram.org/file/bot'' @ TOKEN e @ [47] @ path,
      f_file_type = file_type, f_caption = caption, f_created_at = current_timestamp e\<rparr>"

section \<open>Sample worlds\<close>

text \<open>A store with one company and a chat that chose the criterion without the menu.\<close>

definition acme_world :: world where
  "acme_world =
     idle_world\<lparr>companies := [acme_row],
       search_states := [5 \<mapsto> \<lparr>search_type = Some (Some crit_name), search_value = None\<rparr>]\<rparr>"

text \<open>Chat 1 at the first step of the registration, and at the second with a name.\<close>

definition naming_world :: world where
  "naming_world =
     idle_world\<lparr>user_states := [1 \<mapsto> \<lparr>state = Waiting_name, data = Some Map.empty\<rparr>]\<rparr>"

definition inn_world :: world where
  "inn_world =
     idle_world\<lparr>user_states :=
       [1 \<mapsto> \<lparr>state = Waiting_inn, data = Some [Name \<mapsto> ascii ''Acme'']\<rparr>]\<rparr>"

text \<open>Chat 1 at the steps of the phone and of the email, with what was collected before.\<close>

definition phone_world :: world where
  "phone_world =
     idle_world\<lparr>user_states :=
       [1 \<mapsto> \<lparr>state = Waiting_phone,
                 data = Some [Name \<mapsto> ascii ''Acme'', Inn \<mapsto> ascii ''7701234567'']\<rparr>]\<rparr>"

definition email_world :: world where
  "email_world =
     idle_world\<lparr>user_states :=
       [1 \<mapsto> \<lparr>state = Waiting_email,
                 data = Some [Name \<mapsto> ascii ''Acme'', Inn \<mapsto> ascii ''7701234567'',
                              Phone \<mapsto> ascii ''+74951234567'',
                              Contact_person \<mapsto> ascii ''Ivanov'']\<rparr>]\<rparr>"

text \<open>Chat 1 waiting for the input of the API flow.\<close>

definition api_world :: world where
  "api_world =
     idle_world\<lparr>user_states := [1 \<mapsto> \<lparr>state = Waiting_api_data, data = None\<rparr>]\<rparr>"

text \<open>A network that fails twice and then answers, and one that always fails.\<close>

definition flaky :: "nat \<Rightarrow> attempt" where
  "flaky i = (if i < 2 then Raises (RequestException (ascii ''timed out''))
              else Responds (JDict []))"

definition dead :: "nat \<Rightarrow> attempt" where
  "dead i = Raises (RequestException (str_nat i))"

text \<open>The three messages of a search that starts from the menu, and the two without it.\<close>

definition menu_search :: "(env \<times> msg) list" where
  "menu_search =
     [(quiet_env, text_msg 1 1 btn_find_company),
      (quiet_env, text_msg 1 2 btn_by_name),
      (quiet_env, text_msg 1 3 (ascii ''Zeta''))]"

definition direct_search :: "(env \<times> msg) list" where
  "direct_search =
     [(quiet_env, text_msg 1 2 btn_by_name),
      (quiet_env, text_msg 1 3 (ascii ''Zeta''))]"

text \<open>
  Outside worlds for the API flow: the API answers with a complete record; the insert then
  fails; the network is dead; the API answers with a list; no attempt is allowed; the file
  lookup fails; the insert of the attachment fails.
\<close>

definition complete_response :: pyjson where
  "complete_response = JDict [(ascii ''done'', JStr complete_text)]"

definition answering_env :: env where
  "answering_env = quiet_env\<lparr>http_post := (\<lambda>i. Responds complete_response)\<rparr>"

definition full_disk_env :: env where
  "full_disk_env = answering_env\<lparr>insert_company_fault := Some (StoreError (ascii ''disk full''))\<rparr>"

definition dead_env :: env where
  "dead_env = quiet_env\<lparr>http_post := dead\<rparr>"

definition list_env :: env where
  "list_env = quiet_env\<lparr>http_post := (\<lambda>i. Responds (JOther True (ascii ''list'')))\<rparr>"

definition no_retry_env :: env where
  "no_retry_env = quiet_env\<lparr>MAX_RETRIES := 0\<rparr>"

definition no_file_env :: env where
  "no_file_env = quiet_env\<lparr>get_file := Inl (OtherError (ascii ''file is too big''))\<rparr>"

definition no_attachment_env :: env where
  "no_attachment_env =
     answering_env\<lparr>insert_file_fault := Some (StoreError (ascii ''disk full''))\<rparr>"

definition file_msg :: "int \<Rightarrow> int \<Rightarrow> ftype \<Rightarrow> msg" where
  "file_msg chat n file_type = \<lparr>chat_id = chat, message_id = n, content = File file_type None\<rparr>"


section \<open>The phone validator\<close>

lemma py_replace_char: "py_replace [c] [] s = filter (\<lambda>x. x \<noteq> c) s"
  by (induction s) (auto simp: py_startswith_def)

lemma stripped_phone:
  "py_replace [41] [] (py_replace [40] [] (py_replace [45] [] (py_replace [32] []
     (py_replace [43] [] phone))))
   = filter (\<lambda>c. c \<notin> {43, 45, 40, 41, 32}) (phone :: pystr)"
  unfolding py_replace_char filter_filter
  by (rule filter_cong) auto

text \<open>
  C8. The phone validator accepts a string exactly when, with every \<open>+\<close> (43), \<open>-\<close> (45),
  \<open>(\<close> (40), \<open>)\<close> (41) and space (32) removed, at least 10 characters remain and all of
  them are digits. It is a total function to \<open>bool\<close>: it has no state to change and no
  branch that raises. On the two examples of the specification it accepts
  \<open>+7 (495) 123-45-67\<close> and rejects \<open>12345\<close>.
\<close>

theorem validate_phone_iff:
  "(validate_phone dg phone \<longleftrightarrow>
      10 \<le> length (filter (\<lambda>c. c \<notin> {43, 45, 40, 41, 32}) phone)
      \<and> list_all dg (filter (\<lambda>c. c \<notin> {43, 45, 40, 41, 32}) phone))
   \<and> validate_phone ascii_digit (ascii ''+7 (495) 123-45-67'')
   \<and> \<not> validate_phone ascii_digit (ascii ''12345'')"
proof -
  have "validate_phone dg phone \<longleftrightarrow>
      10 \<le> length (filter (\<lambda>c. c \<notin> {43, 45, 40, 41, 32}) phone)
      \<and> list_all dg (filter (\<lambda>c. c \<notin> {43, 45, 40, 41, 32}) phone)"
    unfolding validate_phone_def Let_def stripped_phone py_isdigit_def by auto
  moreover have "validate_phone ascii_digit (ascii ''+7 (495) 123-45-67'')"
    unfolding validate_phone_def Let_def stripped_phone
    by (simp add: py_isdigit_def ascii_digit_def ascii_def)
  moreover have "\<not> validate_phone ascii_digit (ascii ''12345'')"
    unfolding validate_phone_def Let_def stripped_phone
    by (simp add: py_isdigit_def ascii_digit_def ascii_def)
  ultimately show ?thesis by blast
qed

section \<open>Long replies\<close>

lemma concat_slices:
  "concat (map (\<lambda>k. take n (drop (k * n) xs)) [0..<m]) = take (m * n) xs"
proof (induction m)
  case 0
  show ?case by simp
next
  case (Suc m)
  have "take (m * n + n) xs = take (m * n) xs @ take n (drop (m * n) xs)"
    by (simp add: take_add)
  with Suc show ?case by (simp add: add.commute)
qed

lemma reply_chunks_alt:
  "reply_chunks s =
     map (\<lambda>k. take 4096 (drop (k * 4096) s)) [0..<(length s + 4096 - 1) div 4096]"
  by (simp add: reply_chunks_def py_range_step_def py_slice_def comp_def)

lemma concat_reply_chunks: "concat (reply_chunks s) = s"
proof -
  have "length s \<le> ((length s + 4096 - 1) div 4096) * 4096" by arith
  then show ?thesis
    unfolding reply_chunks_alt concat_slices by simp
qed

lemma reply_chunks_bound: "list_all (\<lambda>c. length c \<le> 4096) (reply_chunks s)"
  by (simp add: reply_chunks_alt list_all_iff)

lemma reply_chunks_10000:
  assumes "length s = 10000"
  shows "map length (reply_chunks s) = [4096, 4096, 1808]"
proof -
  have "[0..<(10000 + 4096 - 1) div 4096] = [0, 1, 2::nat]"
    by (simp add: upt_rec)
  then show ?thesis
    using assms by (simp add: reply_chunks_alt)
qed

lemma outbox_send_chunks:
  "outbox (send_chunks w chat response mk) =
     outbox w @ map (\<lambda>piece. \<lparr>to_chat = chat, reply_to_id = None, body = piece,
                              reply_markup = mk\<rparr>)
                 (reply_chunks response)"
proof -
  have "outbox (foldl (\<lambda>w' piece. send_message w' chat piece mk) w ps) =
        outbox w @ map (\<lambda>piece. \<lparr>to_chat = chat, reply_to_id = None, body = piece,
                                 reply_markup = mk\<rparr>) ps"
    for ps
    by (induction ps arbitrary: w) (simp_all add: send_message_def)
  then show ?thesis by (simp add: send_chunks_def)
qed

lemma sent_bodies_send_chunks:
  "map body (drop (length (outbox w)) (outbox (send_chunks w chat response mk)))
     = reply_chunks response"
  by (simp add: outbox_send_chunks comp_def)

lemma acme_world_all: "get_all_companies quiet_env (companies acme_world) = Inr [acme_row]"
  by (simp add: get_all_companies_def quiet_env_def acme_world_def idle_world_def)

lemma acme_world_search:
  "search_company quiet_env (companies acme_world) (Some crit_name) (ascii ''cm'')
     = Inr [acme_row]"
  by (simp add: search_company_def quiet_env_def acme_world_def idle_world_def py_lower_def
      lower_cp_def crit_name_def field_map_def like_column_def acme_row_def ascii_def
      ascii_fold_def)

text \<open>
  C9. The pieces a long text is sent in, taken in order, concatenate to the text, and each
  has at most 4096 characters; a text of 10000 characters goes out as pieces of 4096, 4096
  and 1808. The messages \<open>send_chunks\<close> adds to the outbox carry exactly these pieces, and so
  do the messages of \<open>show_all_companies\<close> (for the listing of a store that is not empty)
  and of \<open>perform_search\<close> (for the listing of the rows found).
\<close>

theorem long_reply_chunking:
  "concat (reply_chunks s) = s
   \<and> list_all (\<lambda>piece. length piece \<le> 4096) (reply_chunks s)
   \<and> (length s = 10000 \<longrightarrow> map length (reply_chunks s) = [4096, 4096, 1808])
   \<and> map body (drop (length (outbox w)) (outbox (send_chunks w chat s mk))) = reply_chunks s
   \<and> (get_all_companies e (companies w) = Inr found \<and> found \<noteq> [] \<longrightarrow>
        map body (drop (length (outbox w)) (outbox (fst (show_all_companies e w m))))
          = reply_chunks (list_response found))
   \<and> (search_states w (chat_id m) = Some ss \<and> search_type ss = Some st
        \<and> search_company e (companies w) st txt = Inr found \<and> found \<noteq> [] \<longrightarrow>
        map body (drop (length (outbox w)) (outbox (fst (perform_search e w m txt))))
          = reply_chunks (search_response found))"
proof -
  have a: "get_all_companies e (companies w) = Inr found \<and> found \<noteq> [] \<longrightarrow>
        map body (drop (length (outbox w)) (outbox (fst (show_all_companies e w m))))
          = reply_chunks (list_response found)"
    by (simp add: show_all_companies_def sent_bodies_send_chunks)
  have b: "search_states w (chat_id m) = Some ss \<and> search_type ss = Some st
        \<and> search_company e (companies w) st txt = Inr found \<and> found \<noteq> [] \<longrightarrow>
        map body (drop (length (outbox w)) (outbox (fst (perform_search e w m txt))))
          = reply_chunks (search_response found)"
    by (simp add: perform_search_def Let_def sent_bodies_send_chunks)
  show ?thesis
    using a b concat_reply_chunks [of s] reply_chunks_bound [of s] reply_chunks_10000 [of s]
      sent_bodies_send_chunks [of w chat s mk]
    by blast
qed

theorem long_reply_chunking_witness:
  "concat (reply_chunks (replicate 10000 (65::nat))) = replicate 10000 65
   \<and> length (replicate 10000 (65::nat)) = 10000
   \<and> map length (reply_chunks (replicate 10000 (65::nat))) = [4096, 4096, 1808]
   \<and> get_all_companies quiet_env (companies acme_world) = Inr [acme_row]
   \<and> map body (drop (length (outbox acme_world))
        (outbox (fst (show_all_companies quiet_env acme_world (text_msg 5 1 btn_show_all)))))
       = reply_chunks (list_response [acme_row])
   \<and> search_company quiet_env (companies acme_world) (Some crit_name) (ascii ''cm'')
       = Inr [acme_row]
   \<and> map body (drop (length (outbox acme_world))
        (outbox (fst (perform_search quiet_env acme_world (text_msg 5 1 (ascii ''cm''))
                        (ascii ''cm'')))))
       = reply_chunks (search_response [acme_row])"
proof -
  have s: "search_states acme_world (chat_id (text_msg 5 1 (ascii ''cm'')))
             = Some \<lparr>search_type = Some (Some crit_name), search_value = None\<rparr>"
    by (simp add: acme_world_def text_msg_def idle_world_def)
  show ?thesis
    using long_reply_chunking [of "replicate 10000 (65::nat)" acme_world 5 No_markup
        quiet_env "[acme_row]" "text_msg 5 1 btn_show_all"]
      long_reply_chunking [of "replicate 10000 (65::nat)" acme_world 5 No_markup
        quiet_env "[acme_row]" "text_msg 5 1 (ascii ''cm'')"
        "\<lparr>search_type = Some (Some crit_name), search_value = None\<rparr>" "Some crit_name"
        "ascii ''cm''"]
      acme_world_all acme_world_search s
    by simp
qed

section \<open>The response parser\<close>

lemmas label_defs = lbl_name_def lbl_inn_def lbl_phone_def lbl_contact_person_def lbl_email_def





















lemma complete_text_parsed: "parse_text_data complete_text \<noteq> None"
  by (simp add: complete_text_def parse_text_data_def parse_line_def
      label_defs ascii_def py_startswith_def)

text \<open>
  C4, as the claim states it, fails. In the response below the field \<open>done\<close> is present
  and empty, so it is the first present field and the claim gives an absent result. The
  code goes on to \<open>message\<close> and parses its text, which holds a complete record.
\<close>

theorem empty_done_falls_through:
  "map_of empty_done_response (ascii ''done'') = Some (JStr [])
   \<and> parse_api_response (JDict empty_done_response) = Inr (parse_text_data complete_text)
   \<and> parse_text_data complete_text \<noteq> None"
proof -
  have "complete_text \<noteq> []"
    by (simp add: complete_text_def label_defs)
  then show ?thesis
    using complete_text_parsed
    by (simp add: empty_done_response_def parse_api_response_def text_data_of_def py_or_def
        dict_get_def dict_get_default_def ascii_def)
qed

text \<open>
  C4, amended. For every response dict the text to parse is the first of the values of
  \<open>done\<close>, \<open>message\<close> and \<open>text\<close>, in this order, that is present and true in Python's
  sense (for a string: not empty). When none of the three is, the result is absent. (A
  value that is true and not a string cannot be split into lines and raises.)
\<close>

theorem text_source_first_true:
  "parse_api_response (JDict kv) =
     (case find truthy [dict_get kv (ascii ''done''), dict_get kv (ascii ''message''),
                        dict_get_default kv (ascii ''text'') (JStr [])] of
        None \<Rightarrow> Inr None
      | Some (JStr s) \<Rightarrow> Inr (parse_text_data s)
      | Some v \<Rightarrow> Inl (no_attribute v ''split''))"
proof (cases "kv = []")
  case True
  then show ?thesis
    by (simp add: parse_api_response_def dict_get_def dict_get_default_def)
next
  case False
  then show ?thesis
    by (auto simp: parse_api_response_def text_data_of_def py_or_def Let_def
        split: pyjson.splits)
qed

section \<open>The API client\<close>

lemma fails_transportE:
  assumes "fails_transport a"
  obtains err where "a = Raises err" "retried err"
  using assms by (cases a) (auto simp: fails_transport_def)

text \<open>The loop from the attempt \<open>i\<close> on, when the first answer comes at the attempt \<open>k\<close>.\<close>

lemma retry_loop_success:
  assumes "i \<le> k" "k < n" "int n = mr"
    and "\<forall>j. i \<le> j \<and> j < k \<longrightarrow> fails_transport (post j)"
    and "post k = Responds answer"
  shows "retry_loop mr post [i..<n] c t =
           \<lparr>outcome = Inr answer, calls = c + (k - i) + 1, slept = t + (\<Sum>j = i..<k. 2 ^ j)\<rparr>"
  using assms
proof (induction "k - i" arbitrary: i c t)
  case 0
  then have "i = k" by simp
  moreover have "[k..<n] = k # [Suc k..<n]"
    using \<open>k < n\<close> by (simp add: upt_conv_Cons)
  ultimately show ?case using \<open>post k = Responds answer\<close> by simp
next
  case (Suc d)
  then have lt: "i < k" by simp
  then have up: "[i..<n] = i # [Suc i..<n]"
    using \<open>k < n\<close> by (simp add: upt_conv_Cons)
  obtain err where e: "post i = Raises err" "retried err"
    using Suc.prems(4) lt by (auto elim: fails_transportE)
  have notlast: "int i \<noteq> mr - 1"
    using lt \<open>k < n\<close> \<open>int n = mr\<close> by auto
  have ih: "retry_loop mr post [Suc i..<n] (c + 1) (t + 2 ^ i) =
           \<lparr>outcome = Inr answer, calls = (c + 1) + (k - Suc i) + 1,
             slept = (t + 2 ^ i) + (\<Sum>j = Suc i..<k. 2 ^ j)\<rparr>"
    using Suc.hyps Suc.prems lt by (intro Suc.hyps(1)) auto
  have s: "(\<Sum>j = i..<k. (2::nat) ^ j) = 2 ^ i + (\<Sum>j = Suc i..<k. 2 ^ j)"
    using lt by (intro sum.atLeast_Suc_lessThan) simp
  have c1: "(c + 1) + (k - Suc i) + 1 = c + (k - i) + 1"
    using lt by simp
  have "retry_loop mr post [i..<n] c t = retry_loop mr post [Suc i..<n] (c + 1) (t + 2 ^ i)"
    using e notlast by (simp add: up)
  then show ?case
    unfolding ih c1 s by (simp add: add.assoc)
qed

text \<open>The loop from the attempt \<open>i\<close> on, when every attempt up to the last one fails.\<close>

lemma retry_loop_exhausted:
  assumes "i < n" "int n = mr"
    and "\<forall>j. i \<le> j \<and> j < n \<longrightarrow> fails_transport (post j)"
    and "post (n - 1) = Raises err"
  shows "retry_loop mr post [i..<n] c t =
           \<lparr>outcome = Inl err, calls = c + (n - i), slept = t + (\<Sum>j = i..<n - 1. 2 ^ j)\<rparr>"
  using assms
proof (induction "n - i" arbitrary: i c t)
  case 0
  then show ?case by simp
next
  case (Suc d)
  have up: "[i..<n] = i # [Suc i..<n]"
    using \<open>i < n\<close> by (simp add: upt_conv_Cons)
  obtain e where e: "post i = Raises e" "retried e"
    using Suc.prems(3) \<open>i < n\<close> by (auto elim: fails_transportE)
  show ?case
  proof (cases "Suc i = n")
    case True
    then have "int i = mr - 1" "n - 1 = i"
      using \<open>int n = mr\<close> by auto
    then show ?thesis
      using e Suc.prems(4) True by (simp add: up)
  next
    case False
    then have lt: "Suc i < n" using \<open>i < n\<close> by simp
    then have notlast: "int i \<noteq> mr - 1"
      using \<open>int n = mr\<close> by auto
    have ih: "retry_loop mr post [Suc i..<n] (c + 1) (t + 2 ^ i) =
           \<lparr>outcome = Inl err, calls = (c + 1) + (n - Suc i),
             slept = (t + 2 ^ i) + (\<Sum>j = Suc i..<n - 1. 2 ^ j)\<rparr>"
      using Suc.hyps Suc.prems lt by (intro Suc.hyps(1)) auto
    have s: "(\<Sum>j = i..<n - 1. (2::nat) ^ j) = 2 ^ i + (\<Sum>j = Suc i..<n - 1. 2 ^ j)"
      using lt by (intro sum.atLeast_Suc_lessThan) simp
    have c1: "(c + 1) + (n - Suc i) = c + (n - i)"
      using lt by simp
    have "retry_loop mr post [i..<n] c t = retry_loop mr post [Suc i..<n] (c + 1) (t + 2 ^ i)"
      using e notlast by (simp add: up)
    then show ?thesis
      unfolding ih c1 s by (simp add: add.assoc)
  qed
qed

text \<open>
  C5. When the attempts before the attempt \<open>k\<close> fail with an exception the client retries
  and the attempt \<open>k\<close>, one of the \<open>MAX_RETRIES\<close> attempts, answers, \<open>send_request\<close>
  returns that answer after \<open>k + 1\<close> requests, having slept \<open>2 ^ j\<close> seconds after each
  failed attempt \<open>j\<close>. When \<open>MAX_RETRIES\<close> is positive and all the attempts fail so, the
  exception of the last attempt reaches the caller after exactly \<open>MAX_RETRIES\<close> requests.
  With \<open>MAX_RETRIES = 3\<close>, two failures and then an answer give the answer after
  \<open>2 ^ 0 + 2 ^ 1\<close> seconds of sleep.
\<close>

theorem send_request_retry:
  "(k < nat mr \<and> (\<forall>j<k. fails_transport (post j)) \<and> post k = Responds answer \<longrightarrow>
      send_request mr post = \<lparr>outcome = Inr answer, calls = k + 1, slept = (\<Sum>j<k. 2 ^ j)\<rparr>)
   \<and> (0 < mr \<and> (\<forall>j<nat mr. fails_transport (post j)) \<and> post (nat mr - 1) = Raises err \<longrightarrow>
      send_request mr post =
        \<lparr>outcome = Inl err, calls = nat mr, slept = (\<Sum>j<nat mr - 1. 2 ^ j)\<rparr>)
   \<and> (fails_transport (post 0) \<and> fails_transport (post 1) \<and> post 2 = Responds answer \<longrightarrow>
      send_request 3 post = \<lparr>outcome = Inr answer, calls = 3, slept = 2 ^ 0 + 2 ^ 1\<rparr>)"
proof -
  have first: "send_request mr post =
      \<lparr>outcome = Inr answer, calls = k + 1, slept = (\<Sum>j<k. 2 ^ j)\<rparr>"
    if "k < nat mr" "\<forall>j<k. fails_transport (post j)" "post k = Responds answer" for k mr
  proof -
    have "int (nat mr) = mr" using that(1) by simp
    then show ?thesis
      using retry_loop_success [of 0 k "nat mr" mr post answer 0 0] that
      by (simp add: send_request_def atLeast0LessThan)
  qed
  have second: "send_request mr post =
        \<lparr>outcome = Inl err, calls = nat mr, slept = (\<Sum>j<nat mr - 1. 2 ^ j)\<rparr>"
    if "0 < mr" "\<forall>j<nat mr. fails_transport (post j)" "post (nat mr - 1) = Raises err"
  proof -
    have "int (nat mr) = mr" "0 < nat mr" using that(1) by simp_all
    then show ?thesis
      using retry_loop_exhausted [of 0 "nat mr" mr post err 0 0] that
      by (simp add: send_request_def atLeast0LessThan)
  qed
  have third: "send_request 3 post = \<lparr>outcome = Inr answer, calls = 3, slept = 2 ^ 0 + 2 ^ 1\<rparr>"
    if "fails_transport (post 0)" "fails_transport (post 1)" "post 2 = Responds answer"
  proof -
    have "\<forall>j<2. fails_transport (post j)"
      using that by (auto simp: less_Suc_eq numeral_2_eq_2)
    then show ?thesis
      using first [of 2 3] that by (simp add: lessThan_Suc numeral_2_eq_2)
  qed
  show ?thesis using first [of k mr] second third by blast
qed

text \<open>
  C5 at a network that times out twice and then answers, and at one that never answers,
  both with three attempts allowed.
\<close>

theorem send_request_retry_witness:
  "send_request 3 flaky = \<lparr>outcome = Inr (JDict []), calls = 3, slept = 3\<rparr>
   \<and> send_request 3 dead
       = \<lparr>outcome = Inl (RequestException (ascii ''2'')), calls = 3, slept = 3\<rparr>"
proof -
  have a: "\<forall>j<2. fails_transport (flaky j)"
    by (simp add: flaky_def fails_transport_def)
  have b: "flaky 2 = Responds (JDict [])" by (simp add: flaky_def)
  have c: "\<forall>j<nat 3. fails_transport (dead j)"
    by (simp add: dead_def fails_transport_def)
  have d: "dead (nat 3 - 1) = Raises (RequestException (ascii ''2''))"
    by (simp add: dead_def str_nat.simps ascii_def)
  have s: "(\<Sum>j<(2::nat). (2::nat) ^ j) = 3"
    by (simp add: lessThan_Suc numeral_2_eq_2)
  show ?thesis
    using send_request_retry [of 2 3 flaky "JDict []" "RequestException (ascii ''2'')"]
      send_request_retry [of 2 3 dead "JDict []" "RequestException (ascii ''2'')"]
      a b c d s
    by simp
qed

section \<open>The search flow\<close>

lemmas button_defs = btn_help_def btn_add_company_def btn_show_all_def btn_find_company_def
  btn_by_name_def btn_by_inn_def btn_by_email_def btn_send_to_api_def

lemma menu_first_two:
  "run idle_world (take 2 menu_search) =
     idle_world\<lparr>search_states := [1 \<mapsto> \<lparr>search_type = Some (Some crit_name), search_value = Some None\<rparr>],
       outbox := [\<lparr>to_chat = 1, reply_to_id = Some 1, body = txt_choose_criterion, reply_markup = Search_keyboard\<rparr>,
                  \<lparr>to_chat = 1, reply_to_id = Some 2, body = txt_enter_value_prefix @ crit_name @ [58], reply_markup = Remove_keyboard\<rparr>]\<rparr>"
  apply (simp add: run_def menu_search_def handle_def text_msg_def route_def text_handlers_def)
  apply (simp add: extract_command_def py_startswith_def button_defs)
  apply (simp add: search_company_start_def set_search_type_def reply_to_def idle_world_def Let_def str_col_def)
  apply (simp add: button_defs)
  done

lemma zeta_not_served: "\<not> served_first (ascii ''Zeta'')"
  by (simp add: served_first_def extract_command_def py_startswith_def button_defs ascii_def)

lemma route_unfold:
  "route w m txt =
     (if extract_command txt = Some (ascii ''start'') then Some Start_message
      else if txt = btn_help then Some Help_message
      else if txt = btn_add_company then Some Add_company_start
      else if txt = btn_show_all then Some Show_all_companies
      else if txt = btn_find_company then Some Search_company_start
      else if txt = btn_by_name \<or> txt = btn_by_inn \<or> txt = btn_by_email then Some Set_search_type
      else if search_pending w (chat_id m) then Some Perform_search
      else if in_state w (chat_id m) Waiting_name then Some Process_company_name
      else if in_state w (chat_id m) Waiting_inn then Some Process_company_inn
      else if in_state w (chat_id m) Waiting_phone then Some Process_company_phone
      else if in_state w (chat_id m) Waiting_contact then Some Process_company_contact
      else if in_state w (chat_id m) Waiting_email then Some Process_company_email
      else if txt = btn_send_to_api then Some Send_to_api_start
      else if in_state w (chat_id m) Waiting_api_data then Some Process_text_for_api
      else None)"
  by (simp add: route_def text_handlers_def)

lemma route_not_served:
  "\<not> served_first txt \<Longrightarrow>
   route w m txt =
     (if search_pending w (chat_id m) then Some Perform_search
      else if in_state w (chat_id m) Waiting_name then Some Process_company_name
      else if in_state w (chat_id m) Waiting_inn then Some Process_company_inn
      else if in_state w (chat_id m) Waiting_phone then Some Process_company_phone
      else if in_state w (chat_id m) Waiting_contact then Some Process_company_contact
      else if in_state w (chat_id m) Waiting_email then Some Process_company_email
      else if txt = btn_send_to_api then Some Send_to_api_start
      else if in_state w (chat_id m) Waiting_api_data then Some Process_text_for_api
      else None)"
  unfolding route_unfold by (simp add: served_first_def)

lemma menu_third_dropped:
  "route (run idle_world (take 2 menu_search)) (text_msg 1 3 (ascii ''Zeta'')) (ascii ''Zeta'') = None"
  unfolding menu_first_two route_not_served [OF zeta_not_served]
  by (simp add: search_pending_def in_state_def idle_world_def text_msg_def btn_send_to_api_def ascii_def)

lemma run_snoc: "run w (evs @ [(e, m)]) = fst (handle e (run w evs) m)"
  by (simp add: run_def)

lemma menu_search_split:
  "menu_search = take 2 menu_search @ [(quiet_env, text_msg 1 3 (ascii ''Zeta''))]"
  by (simp add: menu_search_def)

lemma menu_search_run: "run idle_world menu_search = run idle_world (take 2 menu_search)"
proof -
  have "run idle_world menu_search
          = fst (handle quiet_env (run idle_world (take 2 menu_search)) (text_msg 1 3 (ascii ''Zeta'')))"
    using run_snoc [of idle_world "take 2 menu_search" quiet_env "text_msg 1 3 (ascii ''Zeta'')"]
      menu_search_split by simp
  also have "\<dots> = run idle_world (take 2 menu_search)"
    using menu_third_dropped by (simp add: handle_def text_msg_def)
  finally show ?thesis .
qed

lemma direct_first:
  "run idle_world (take 1 direct_search) =
     idle_world\<lparr>search_states := [1 \<mapsto> \<lparr>search_type = Some (Some crit_name), search_value = None\<rparr>],
       outbox := [\<lparr>to_chat = 1, reply_to_id = Some 2, body = txt_enter_value_prefix @ crit_name @ [58], reply_markup = Remove_keyboard\<rparr>]\<rparr>"
  apply (simp add: run_def direct_search_def handle_def text_msg_def route_def text_handlers_def)
  apply (simp add: extract_command_def py_startswith_def button_defs)
  apply (simp add: set_search_type_def reply_to_def idle_world_def Let_def str_col_def)
  apply (simp add: button_defs)
  done

lemma direct_second_routed:
  "route (run idle_world (take 1 direct_search)) (text_msg 1 3 (ascii ''Zeta'')) (ascii ''Zeta'') = Some Perform_search"
  unfolding direct_first route_not_served [OF zeta_not_served]
  by (simp add: search_pending_def text_msg_def)

lemma crit_name_column: "field_map (py_lower crit_name) = Some (\<lambda>r. Some (c_name r))"
  by (simp add: field_map_def py_lower_def lower_cp_def crit_name_def)

lemma direct_search_run:
  "run idle_world direct_search =
     idle_world\<lparr>search_states := Map.empty,
       outbox := [\<lparr>to_chat = 1, reply_to_id = Some 2, body = txt_enter_value_prefix @ crit_name @ [58], reply_markup = Remove_keyboard\<rparr>,
                  \<lparr>to_chat = 1, reply_to_id = Some 3, body = txt_not_found, reply_markup = Main_keyboard\<rparr>]\<rparr>"
proof -
  have "direct_search = take 1 direct_search @ [(quiet_env, text_msg 1 3 (ascii ''Zeta''))]"
    by (simp add: direct_search_def)
  then have "run idle_world direct_search
          = fst (handle quiet_env (run idle_world (take 1 direct_search)) (text_msg 1 3 (ascii ''Zeta'')))"
    using run_snoc [of idle_world "take 1 direct_search" quiet_env "text_msg 1 3 (ascii ''Zeta'')"]
    by simp
  also have "\<dots> = fst (perform_search quiet_env (run idle_world (take 1 direct_search)) (text_msg 1 3 (ascii ''Zeta'')) (ascii ''Zeta''))"
    using direct_second_routed by (simp add: handle_def text_msg_def)
  also have "\<dots> = idle_world\<lparr>search_states := Map.empty,
       outbox := [\<lparr>to_chat = 1, reply_to_id = Some 2, body = txt_enter_value_prefix @ crit_name @ [58], reply_markup = Remove_keyboard\<rparr>,
                  \<lparr>to_chat = 1, reply_to_id = Some 3, body = txt_not_found, reply_markup = Main_keyboard\<rparr>]\<rparr>"
    unfolding direct_first
    by (simp add: perform_search_def text_msg_def search_company_def crit_name_column
        quiet_env_def idle_world_def reply_to_def)
  finally show ?thesis .
qed

text \<open>
  C1. The code does not do what the claim says. A chat sends the search command, chooses
  the criterion "by name" and sends a value. \<open>search_company_start\<close> has stored the key
  \<open>search_value\<close> (with \<open>None\<close>), and the filter of \<open>perform_search\<close> asks for an entry
  without that key: no handler takes the third message, no search runs, nothing is
  replied and the entry of the chat stays. After a criterion chosen without the search
  command the same value is searched, answered with "not found", and the entry is cleared.
  For every chat and every text the entry made by the search command and then the choice
  of a criterion is not one \<open>perform_search\<close> accepts.
\<close>

theorem menu_search_never_runs:
  "replies_since idle_world (run idle_world menu_search)
     = [txt_choose_criterion, txt_enter_value_prefix @ crit_name @ [58]]
   \<and> search_states (run idle_world menu_search) 1
       = Some \<lparr>search_type = Some (Some crit_name), search_value = Some None\<rparr>
   \<and> route (run idle_world (take 2 menu_search)) (text_msg 1 3 (ascii ''Zeta'')) (ascii ''Zeta'')
       = None
   \<and> replies_since idle_world (run idle_world direct_search)
       = [txt_enter_value_prefix @ crit_name @ [58], txt_not_found]
   \<and> search_states (run idle_world direct_search) 1 = None
   \<and> \<not> search_pending
         (fst (set_search_type (fst (search_company_start w m)) (m\<lparr>message_id := n\<rparr>) txt))
         (chat_id m)"
proof -
  have "\<not> search_pending
         (fst (set_search_type (fst (search_company_start w m)) (m\<lparr>message_id := n\<rparr>) txt))
         (chat_id m)"
    by (simp add: search_pending_def set_search_type_def search_company_start_def reply_to_def
        Let_def split: option.splits)
  then show ?thesis
    unfolding menu_search_run menu_third_dropped
    unfolding menu_first_two direct_search_run
    by (simp add: replies_since_def idle_world_def)
qed


section \<open>Dispatch\<close>

lemma no_command:
  "extract_command btn_help = None" "extract_command btn_add_company = None"
  "extract_command btn_send_to_api = None"
  by (simp_all add: extract_command_def py_startswith_def button_defs)

lemma route_help: "route w m btn_help = Some Help_message"
  unfolding route_unfold by (simp add: no_command)

lemma route_add: "route w m btn_add_company = Some Add_company_start"
  unfolding route_unfold by (simp add: no_command) (simp add: button_defs)

lemma send_to_api_not_served: "\<not> served_first btn_send_to_api"
  by (simp add: served_first_def no_command) (simp add: button_defs)

lemma route_start: "extract_command txt = Some (ascii ''start'') \<Longrightarrow> route w m txt = Some Start_message"
  unfolding route_unfold by simp

lemma label_no_command:
  "extract_command btn_show_all = None" "extract_command btn_find_company = None"
  "extract_command btn_by_name = None" "extract_command btn_by_inn = None"
  "extract_command btn_by_email = None"
  by (simp_all add: extract_command_def py_startswith_def button_defs)

lemma route_show_all: "route w m btn_show_all = Some Show_all_companies"
  unfolding route_unfold by (simp add: label_no_command) (simp add: button_defs)

lemma route_find: "route w m btn_find_company = Some Search_company_start"
  unfolding route_unfold by (simp add: label_no_command) (simp add: button_defs)

lemma route_criteria:
  "route w m btn_by_name = Some Set_search_type"
  "route w m btn_by_inn = Some Set_search_type"
  "route w m btn_by_email = Some Set_search_type"
  unfolding route_unfold by (simp_all add: label_no_command) (simp_all add: button_defs)

lemma route_served_first:
  "served_first txt \<Longrightarrow>
   route w m txt \<in> {Some Start_message, Some Help_message, Some Add_company_start,
                      Some Show_all_companies, Some Search_company_start,
                      Some Set_search_type}"
  unfolding route_unfold by (auto simp: served_first_def)

lemma in_state_unique: "in_state w c s \<Longrightarrow> in_state w c s' \<longleftrightarrow> s' = s"
  by (auto simp: in_state_def split: option.splits)

lemma route_step:
  assumes "in_state w (chat_id m) s" "s \<noteq> Waiting_api_data"
  shows "route w m txt = Some (step_handler s)
           \<longleftrightarrow> \<not> served_first txt \<and> \<not> search_pending w (chat_id m)"
proof (cases "served_first txt")
  case True
  then have "route w m txt \<noteq> Some (step_handler s)"
    using route_served_first [OF True, of w m] by (cases s) auto
  then show ?thesis using True by simp
next
  case False
  show ?thesis
    unfolding route_not_served [OF False]
    using assms False in_state_unique [OF assms(1)] by (cases s) auto
qed

lemma route_api_step:
  assumes "in_state w (chat_id m) Waiting_api_data"
  shows "route w m txt = Some Process_text_for_api
           \<longleftrightarrow> \<not> served_first txt \<and> \<not> search_pending w (chat_id m) \<and> txt \<noteq> btn_send_to_api"
proof (cases "served_first txt")
  case True
  then have "route w m txt \<noteq> Some Process_text_for_api"
    using route_served_first [OF True, of w m] by auto
  then show ?thesis using True by simp
next
  case False
  show ?thesis
    unfolding route_not_served [OF False]
    using assms False in_state_unique [OF assms(1)] by auto
qed

lemma route_send_to_api:
  "route w m txt = Some Send_to_api_start
     \<longleftrightarrow> txt = btn_send_to_api \<and> \<not> search_pending w (chat_id m)
         \<and> (user_states w (chat_id m) = None \<or> in_state w (chat_id m) Waiting_api_data)"
proof (cases "served_first txt")
  case True
  then have "route w m txt \<noteq> Some Send_to_api_start"
    using route_served_first [OF True, of w m] by auto
  moreover have "txt \<noteq> btn_send_to_api"
    using True send_to_api_not_served by auto
  ultimately show ?thesis by simp
next
  case False
  show ?thesis
  proof (cases "user_states w (chat_id m)")
    case None
    then show ?thesis
      unfolding route_not_served [OF False] by (simp add: in_state_def)
  next
    case (Some u)
    then have "in_state w (chat_id m) (state u)" by (simp add: in_state_def)
    from in_state_unique [OF this] Some show ?thesis
      unfolding route_not_served [OF False] by (cases "state u") auto
  qed
qed

text \<open>
  C2, amended. Dispatch follows the order in which the handlers are registered, not the
  state of the chat. In every state the \<open>/start\<close> command reaches \<open>start_message\<close>, the
  labels "help", "add company", "show all companies" and "find company" reach
  \<open>help_message\<close>, \<open>add_company_start\<close>, \<open>show_all_companies\<close> and
  \<open>search_company_start\<close>, and each of the three criteria reaches \<open>set_search_type\<close>;
  so every such text is taken by one of the six handlers registered first. A chat in a step of the registration
  has a text consumed by the handler of that step exactly when the text is none of these
  and no search value is pending for the chat; for a chat waiting for the API input the
  text must also differ from the "send to API" label. That label alone starts its flow
  only when the chat is in no step of the registration (and no search value is pending).
  A text message is handled by the handler the routing finds.
\<close>

theorem dispatch_by_registration_order:
  "(extract_command txt = Some (ascii ''start'') \<longrightarrow> route w m txt = Some Start_message)
   \<and> route w m btn_help = Some Help_message
   \<and> route w m btn_add_company = Some Add_company_start
   \<and> route w m btn_show_all = Some Show_all_companies
   \<and> route w m btn_find_company = Some Search_company_start
   \<and> route w m btn_by_name = Some Set_search_type
   \<and> route w m btn_by_inn = Some Set_search_type
   \<and> route w m btn_by_email = Some Set_search_type
   \<and> (served_first txt \<longrightarrow>
        route w m txt \<in> {Some Start_message, Some Help_message, Some Add_company_start,
                           Some Show_all_companies, Some Search_company_start,
                           Some Set_search_type})
   \<and> (in_state w (chat_id m) s \<and> s \<noteq> Waiting_api_data \<longrightarrow>
        (route w m txt = Some (step_handler s)
           \<longleftrightarrow> \<not> served_first txt \<and> \<not> search_pending w (chat_id m)))
   \<and> (in_state w (chat_id m) Waiting_api_data \<longrightarrow>
        (route w m txt = Some Process_text_for_api
           \<longleftrightarrow> \<not> served_first txt \<and> \<not> search_pending w (chat_id m)
               \<and> txt \<noteq> btn_send_to_api))
   \<and> (route w m txt = Some Send_to_api_start
        \<longleftrightarrow> txt = btn_send_to_api \<and> \<not> search_pending w (chat_id m)
            \<and> (user_states w (chat_id m) = None \<or> in_state w (chat_id m) Waiting_api_data))
   \<and> (content m = Text txt \<longrightarrow>
        handle e w m = (case route w m txt of None \<Rightarrow> (w, None)
                        | Some h \<Rightarrow> exec_handler e h w m txt))"
  using route_start [of "txt" w m] route_show_all [of w m] route_find [of w m]
    route_criteria [of w m]
    route_help [of w m] route_add [of w m] route_served_first [of "txt" w m]
    route_step [of w m s "txt"] route_api_step [of w m "txt"] route_send_to_api [of w m "txt"]
  by (simp add: handle_def)

text \<open>
  C2, as the claim states it, fails. Chat 1 is in the step \<open>waiting_name\<close> and sends the
  help label: the help handler, registered before the handlers of the steps, answers
  with the help text, the chat stays in \<open>waiting_name\<close> with no name collected, and the
  world differs from the one \<open>process_company_name\<close> would leave.
\<close>

theorem help_label_preempts_step:
  "in_state naming_world 1 Waiting_name
   \<and> handle quiet_env naming_world (text_msg 1 2 btn_help)
       = (reply_to naming_world (text_msg 1 2 btn_help) txt_help No_markup, None)
   \<and> user_states (fst (handle quiet_env naming_world (text_msg 1 2 btn_help))) 1
       = Some \<lparr>state = Waiting_name, data = Some Map.empty\<rparr>
   \<and> fst (handle quiet_env naming_world (text_msg 1 2 btn_help))
       \<noteq> fst (process_company_name naming_world (text_msg 1 2 btn_help) btn_help)"
proof -
  have a: "in_state naming_world 1 Waiting_name"
    by (simp add: in_state_def naming_world_def idle_world_def)
  have b: "handle quiet_env naming_world (text_msg 1 2 btn_help)
       = (reply_to naming_world (text_msg 1 2 btn_help) txt_help No_markup, None)"
    by (simp add: handle_def text_msg_def route_help help_message_def)
  have c: "user_states (reply_to naming_world (text_msg 1 2 btn_help) txt_help No_markup) 1
       = Some \<lparr>state = Waiting_name, data = Some Map.empty\<rparr>"
    by (simp add: reply_to_def naming_world_def idle_world_def)
  have d: "user_states (fst (process_company_name naming_world (text_msg 1 2 btn_help) btn_help)) 1
       = Some \<lparr>state = Waiting_inn, data = Some [Name \<mapsto> btn_help]\<rparr>"
    by (simp add: process_company_name_def collect_def naming_world_def idle_world_def
        text_msg_def reply_to_def)
  have "fst (handle quiet_env naming_world (text_msg 1 2 btn_help))
       \<noteq> fst (process_company_name naming_world (text_msg 1 2 btn_help) btn_help)"
  proof
    assume "fst (handle quiet_env naming_world (text_msg 1 2 btn_help))
       = fst (process_company_name naming_world (text_msg 1 2 btn_help) btn_help)"
    then have "user_states (fst (handle quiet_env naming_world (text_msg 1 2 btn_help))) 1
       = user_states (fst (process_company_name naming_world (text_msg 1 2 btn_help) btn_help)) 1"
      by simp
    then show False unfolding b d using c by simp
  qed
  then show ?thesis using a b c by simp
qed

text \<open>
  The amended C2 at a chat in the step \<open>waiting_inn\<close>: \<open>/start\<close> and the "find company" label leave
  the step, a number and the "send to API" label are consumed by it; and at a chat waiting
  for the API input.
\<close>

theorem dispatch_by_registration_order_witness:
  "extract_command (ascii ''/start'') = Some (ascii ''start'')
   \<and> route inn_world (text_msg 1 3 (ascii ''/start'')) (ascii ''/start'') = Some Start_message
   \<and> served_first btn_find_company
   \<and> route inn_world (text_msg 1 3 btn_find_company) btn_find_company
       \<in> {Some Start_message, Some Help_message, Some Add_company_start,
           Some Show_all_companies, Some Search_company_start, Some Set_search_type}
   \<and> in_state inn_world 1 Waiting_inn
   \<and> \<not> served_first (ascii ''7701234567'') \<and> \<not> search_pending inn_world 1
   \<and> route inn_world (text_msg 1 3 (ascii ''7701234567'')) (ascii ''7701234567'')
       = Some Process_company_inn
   \<and> in_state api_world 1 Waiting_api_data
   \<and> route api_world (text_msg 1 3 (ascii ''7701234567'')) (ascii ''7701234567'')
       = Some Process_text_for_api
   \<and> route inn_world (text_msg 1 3 btn_send_to_api) btn_send_to_api = Some Process_company_inn
   \<and> handle quiet_env inn_world (text_msg 1 3 btn_send_to_api)
       = process_company_inn quiet_env inn_world (text_msg 1 3 btn_send_to_api) btn_send_to_api"
proof -
  have a: "served_first btn_find_company"
    by (simp add: served_first_def)
  have b: "in_state inn_world (chat_id (text_msg 1 3 t)) Waiting_inn" for t
    by (simp add: in_state_def inn_world_def idle_world_def text_msg_def)
  have c: "\<not> served_first (ascii ''7701234567'')"
    by (simp add: served_first_def extract_command_def py_startswith_def button_defs ascii_def)
  have d: "\<not> search_pending inn_world (chat_id (text_msg 1 3 t))" for t
    by (simp add: search_pending_def inn_world_def idle_world_def text_msg_def)
  have e: "in_state api_world (chat_id (text_msg 1 3 t)) Waiting_api_data" for t
    by (simp add: in_state_def api_world_def idle_world_def text_msg_def)
  have f: "\<not> search_pending api_world (chat_id (text_msg 1 3 t))" for t
    by (simp add: search_pending_def api_world_def idle_world_def text_msg_def)
  have g: "ascii ''7701234567'' \<noteq> btn_send_to_api"
    by (simp add: button_defs ascii_def)
  have h: "content (text_msg 1 3 t) = Text t" "chat_id (text_msg 1 3 t) = 1" for t
    by (simp_all add: text_msg_def)
  have i: "extract_command (ascii ''/start'') = Some (ascii ''start'')"
    by (simp add: extract_command_def py_startswith_def py_isspace_def ascii_def)
  show ?thesis
    using dispatch_by_registration_order [of btn_find_company inn_world
        "text_msg 1 3 btn_find_company" Waiting_inn quiet_env]
      dispatch_by_registration_order [of "ascii ''7701234567''" inn_world
        "text_msg 1 3 (ascii ''7701234567'')" Waiting_inn quiet_env]
      dispatch_by_registration_order [of "ascii ''7701234567''" api_world
        "text_msg 1 3 (ascii ''7701234567'')" Waiting_api_data quiet_env]
      dispatch_by_registration_order [of btn_send_to_api inn_world
        "text_msg 1 3 btn_send_to_api" Waiting_inn quiet_env]
      dispatch_by_registration_order [of "ascii ''/start''" inn_world
        "text_msg 1 3 (ascii ''/start'')" Waiting_inn quiet_env]
      a b c d e f g h i send_to_api_not_served
    by simp
qed

section \<open>The registration flow\<close>

lemma user_states_reply_to [simp]: "user_states (reply_to w m t mk) = user_states w"
  by (simp add: reply_to_def)

lemma companies_reply_to [simp]: "companies (reply_to w m t mk) = companies w"
  by (simp add: reply_to_def)

lemma files_reply_to [simp]: "files (reply_to w m t mk) = files w"
  by (simp add: reply_to_def)

lemma requests_made_reply_to [simp]: "requests_made (reply_to w m t mk) = requests_made w"
  by (simp add: reply_to_def)

lemma replies_since_reply_to [simp]:
  "outbox w0 = outbox w \<Longrightarrow> replies_since w (reply_to w0 m t mk) = [t]"
  by (simp add: replies_since_def reply_to_def)

lemma replies_since_user_states [simp]:
  "replies_since w (w'\<lparr>user_states := us\<rparr>) = replies_since w w'"
  by (simp add: replies_since_def)

lemma seconds_slept_reply_to [simp]: "seconds_slept (reply_to w m t mk) = seconds_slept w"
  by (simp add: reply_to_def)

lemma replies_since_two:
  "replies_since w (reply_to (reply_to w m t mk) m' t' mk') = [t, t']"
  by (simp add: replies_since_def reply_to_def)

lemma search_states_reply_to [simp]: "search_states (reply_to w m t mk) = search_states w"
  by (simp add: reply_to_def)

lemma in_state_reply_to [simp]: "in_state (reply_to w m t mk) c s = in_state w c s"
  by (simp add: in_state_def)

lemma search_pending_reply_to [simp]: "search_pending (reply_to w m t mk) c = search_pending w c"
  by (simp add: search_pending_def)

text \<open>A text that reaches the handler of the step the chat is in.\<close>

lemma handle_step:
  assumes "content m = Text txt" "in_state w (chat_id m) s" "s \<noteq> Waiting_api_data"
    and "\<not> served_first txt" "\<not> search_pending w (chat_id m)"
  shows "handle e w m = exec_handler e (step_handler s) w m txt"
proof -
  have "route w m txt = Some (step_handler s)"
    using route_step [OF assms(2,3), of "txt"] assms(4,5) by simp
  then show ?thesis using assms(1) by (simp add: handle_def)
qed

lemma add_label_invalid: "\<not> validate_inn dg btn_add_company"
  by (simp add: validate_inn_def btn_add_company_def)

text \<open>
  C7, as the claim states it, fails. Chat 1 is in the step \<open>waiting_inn\<close> with the name
  \<open>Acme\<close> collected and sends the text of the "add company" label, which is not a valid
  tax id. \<open>add_company_start\<close>, registered before the handler of the step, takes it: the
  chat is back in \<open>waiting_name\<close>, the collected name is gone and the reply asks for the
  name instead of correcting the tax id.
\<close>

theorem add_label_resets_registration:
  "\<not> validate_inn (char_isdigit quiet_env) btn_add_company
   \<and> user_states inn_world 1
       = Some \<lparr>state = Waiting_inn, data = Some [Name \<mapsto> ascii ''Acme'']\<rparr>
   \<and> user_states (fst (handle quiet_env inn_world (text_msg 1 3 btn_add_company))) 1
       = Some \<lparr>state = Waiting_name, data = Some Map.empty\<rparr>
   \<and> replies_since inn_world (fst (handle quiet_env inn_world (text_msg 1 3 btn_add_company)))
       = [txt_enter_name]"
proof -
  have "handle quiet_env inn_world (text_msg 1 3 btn_add_company)
          = add_company_start inn_world (text_msg 1 3 btn_add_company)"
    by (simp add: handle_def text_msg_def route_add)
  then show ?thesis
    using add_label_invalid [of "char_isdigit quiet_env"]
    by (simp add: add_company_start_def text_msg_def inn_world_def idle_world_def)
qed

text \<open>
  C7, amended. A chat in the step \<open>waiting_inn\<close> sends a text that is not a valid tax id
  and that no handler registered before the steps takes (it is not the \<open>/start\<close> command,
  one of the labels "help", "add company", "show all companies", "find company" or one of
  the three criteria, and no search value is pending for the chat). The reply is the
  corrective message and nothing else changes: \<open>user_states\<close> is as before, so the chat
  stays in \<open>waiting_inn\<close> and the data collected so far, the name among them, is as it
  was. Two such texts in a row give two corrective messages and the same \<open>user_states\<close>.
  The same holds for an invalid phone in \<open>waiting_phone\<close> and an invalid email in
  \<open>waiting_email\<close>. The three handlers themselves answer every invalid input so.
\<close>

theorem invalid_input_keeps_state:
  "(content m = Text inn \<and> in_state w (chat_id m) Waiting_inn \<and> \<not> served_first inn
      \<and> \<not> search_pending w (chat_id m) \<and> \<not> validate_inn (char_isdigit e) inn \<longrightarrow>
      handle e w m = (reply_to w m txt_bad_inn No_markup, None)
      \<and> user_states (fst (handle e w m)) = user_states w
      \<and> replies_since w (fst (handle e w m)) = [txt_bad_inn])
   \<and> (content m = Text inn \<and> content m' = Text inn' \<and> chat_id m' = chat_id m
      \<and> in_state w (chat_id m) Waiting_inn \<and> \<not> search_pending w (chat_id m)
      \<and> \<not> served_first inn \<and> \<not> served_first inn'
      \<and> \<not> validate_inn (char_isdigit e) inn \<and> \<not> validate_inn (char_isdigit e') inn' \<longrightarrow>
      user_states (fst (handle e' (fst (handle e w m)) m')) = user_states w
      \<and> replies_since w (fst (handle e' (fst (handle e w m)) m')) = [txt_bad_inn, txt_bad_inn])
   \<and> (content m = Text phone \<and> in_state w (chat_id m) Waiting_phone \<and> \<not> served_first phone
      \<and> \<not> search_pending w (chat_id m) \<and> \<not> validate_phone (char_isdigit e) phone \<longrightarrow>
      handle e w m = (reply_to w m txt_bad_phone No_markup, None)
      \<and> user_states (fst (handle e w m)) = user_states w
      \<and> replies_since w (fst (handle e w m)) = [txt_bad_phone])
   \<and> (content m = Text email \<and> in_state w (chat_id m) Waiting_email \<and> \<not> served_first email
      \<and> \<not> search_pending w (chat_id m) \<and> \<not> validate_email email \<longrightarrow>
      handle e w m = (reply_to w m txt_bad_email No_markup, None)
      \<and> user_states (fst (handle e w m)) = user_states w
      \<and> replies_since w (fst (handle e w m)) = [txt_bad_email])
   \<and> (\<not> validate_inn (char_isdigit e) inn \<longrightarrow>
      process_company_inn e w m inn = (reply_to w m txt_bad_inn No_markup, None))
   \<and> (\<not> validate_phone (char_isdigit e) phone \<longrightarrow>
      process_company_phone e w m phone = (reply_to w m txt_bad_phone No_markup, None))
   \<and> (\<not> validate_email email \<longrightarrow>
      process_company_email e w m email = (reply_to w m txt_bad_email No_markup, None))"
proof -
  have one: "handle e w m = (reply_to w m txt_bad_inn No_markup, None)"
    if "content m = Text inn" "in_state w (chat_id m) Waiting_inn" "\<not> served_first inn"
      "\<not> search_pending w (chat_id m)" "\<not> validate_inn (char_isdigit e) inn"
    for e w m inn
    using handle_step [OF that(1,2) _ that(3,4), of e] that(5)
    by (simp add: process_company_inn_def)
  have two: "handle e' (fst (handle e w m)) m'
               = (reply_to (reply_to w m txt_bad_inn No_markup) m' txt_bad_inn No_markup, None)"
    if "content m = Text inn" "content m' = Text inn'" "chat_id m' = chat_id m"
      "in_state w (chat_id m) Waiting_inn" "\<not> search_pending w (chat_id m)"
      "\<not> served_first inn" "\<not> served_first inn'"
      "\<not> validate_inn (char_isdigit e) inn" "\<not> validate_inn (char_isdigit e') inn'"
  proof -
    have first: "fst (handle e w m) = reply_to w m txt_bad_inn No_markup"
      using one [OF that(1,4,6,5,8)] by simp
    show ?thesis
      unfolding first
      using that by (intro one) simp_all
  qed
  have ph: "handle e w m = (reply_to w m txt_bad_phone No_markup, None)"
    if "content m = Text phone" "in_state w (chat_id m) Waiting_phone" "\<not> served_first phone"
      "\<not> search_pending w (chat_id m)" "\<not> validate_phone (char_isdigit e) phone"
    using handle_step [OF that(1,2) _ that(3,4), of e] that(5)
    by (simp add: process_company_phone_def)
  have em: "handle e w m = (reply_to w m txt_bad_email No_markup, None)"
    if "content m = Text email" "in_state w (chat_id m) Waiting_email" "\<not> served_first email"
      "\<not> search_pending w (chat_id m)" "\<not> validate_email email"
    using handle_step [OF that(1,2) _ that(3,4), of e] that(5)
    by (simp add: process_company_email_def)
  show ?thesis
    using one [of m inn w e] two ph em
    by (simp add: process_company_inn_def process_company_phone_def process_company_email_def
        replies_since_two)
qed

text \<open>
  The amended C7 at chat 1 in the step \<open>waiting_inn\<close> with the name \<open>Acme\<close>: a tax id
  of five digits and then one with a letter; a phone of five digits in \<open>waiting_phone\<close>;
  an email without a dot in \<open>waiting_email\<close>.
\<close>

theorem invalid_input_keeps_state_witness:
  "\<not> validate_inn (char_isdigit quiet_env) (ascii ''12345'')
   \<and> \<not> validate_inn (char_isdigit quiet_env) (ascii ''77O1234567'')
   \<and> \<not> served_first (ascii ''12345'') \<and> \<not> served_first (ascii ''77O1234567'')
   \<and> in_state inn_world 1 Waiting_inn \<and> \<not> search_pending inn_world 1
   \<and> user_states inn_world 1
       = Some \<lparr>state = Waiting_inn, data = Some [Name \<mapsto> ascii ''Acme'']\<rparr>
   \<and> handle quiet_env inn_world (text_msg 1 3 (ascii ''12345''))
       = (reply_to inn_world (text_msg 1 3 (ascii ''12345'')) txt_bad_inn No_markup, None)
   \<and> user_states
        (fst (handle quiet_env
               (fst (handle quiet_env inn_world (text_msg 1 3 (ascii ''12345''))))
               (text_msg 1 4 (ascii ''77O1234567'')))) 1
       = Some \<lparr>state = Waiting_inn, data = Some [Name \<mapsto> ascii ''Acme'']\<rparr>
   \<and> replies_since inn_world
        (fst (handle quiet_env
               (fst (handle quiet_env inn_world (text_msg 1 3 (ascii ''12345''))))
               (text_msg 1 4 (ascii ''77O1234567''))))
       = [txt_bad_inn, txt_bad_inn]
   \<and> in_state phone_world 1 Waiting_phone
   \<and> \<not> validate_phone (char_isdigit quiet_env) (ascii ''12345'')
   \<and> user_states (fst (handle quiet_env phone_world (text_msg 1 3 (ascii ''12345''))))
       = user_states phone_world
   \<and> replies_since phone_world (fst (handle quiet_env phone_world (text_msg 1 3 (ascii ''12345''))))
       = [txt_bad_phone]
   \<and> in_state email_world 1 Waiting_email
   \<and> \<not> validate_email (ascii ''info@acme'') \<and> \<not> served_first (ascii ''info@acme'')
   \<and> user_states (fst (handle quiet_env email_world (text_msg 1 3 (ascii ''info@acme''))))
       = user_states email_world
   \<and> replies_since email_world
        (fst (handle quiet_env email_world (text_msg 1 3 (ascii ''info@acme''))))
       = [txt_bad_email]"
proof -
  have a: "\<not> validate_inn (char_isdigit quiet_env) (ascii ''12345'')"
    by (simp add: validate_inn_def quiet_env_def ascii_def)
  have b: "\<not> validate_inn (char_isdigit quiet_env) (ascii ''77O1234567'')"
    by (simp add: validate_inn_def py_isdigit_def quiet_env_def ascii_def ascii_digit_def)
  have c: "user_states inn_world 1
             = Some \<lparr>state = Waiting_inn, data = Some [Name \<mapsto> ascii ''Acme'']\<rparr>"
    by (simp add: inn_world_def idle_world_def)
  have d: "\<not> validate_phone (char_isdigit quiet_env) (ascii ''12345'')"
    by (simp add: validate_phone_def py_startswith_def py_isdigit_def quiet_env_def ascii_def)
  have e: "\<not> validate_email (ascii ''info@acme'')"
    by (simp add: validate_email_def email_match_at_def ascii_def upt_rec)
  have f: "\<not> served_first (ascii ''12345'')" "\<not> served_first (ascii ''77O1234567'')"
    "\<not> served_first (ascii ''info@acme'')"
    by (simp_all add: served_first_def extract_command_def py_startswith_def button_defs
        ascii_def)
  have g: "in_state inn_world 1 Waiting_inn" "in_state phone_world 1 Waiting_phone"
    "in_state email_world 1 Waiting_email"
    by (simp_all add: in_state_def inn_world_def phone_world_def email_world_def idle_world_def)
  have h: "\<not> search_pending inn_world 1" "\<not> search_pending phone_world 1"
    "\<not> search_pending email_world 1"
    by (simp_all add: search_pending_def inn_world_def phone_world_def email_world_def
        idle_world_def)
  have i: "content (text_msg 1 n x) = Text x" "chat_id (text_msg 1 n x) = 1" for n x
    by (simp_all add: text_msg_def)
  note inn = invalid_input_keeps_state [where e = quiet_env and e' = quiet_env
      and w = inn_world and m = "text_msg 1 3 (ascii ''12345'')" and inn = "ascii ''12345''"
      and m' = "text_msg 1 4 (ascii ''77O1234567'')" and inn' = "ascii ''77O1234567''"
      and phone = "[]" and email = "[]"]
  note phone = invalid_input_keeps_state [where e = quiet_env and w = phone_world
      and m = "text_msg 1 3 (ascii ''12345'')" and phone = "ascii ''12345''"
      and e' = quiet_env and m' = "text_msg 1 3 (ascii ''12345'')" and inn = "[]"
      and inn' = "[]" and email = "[]"]
  note email = invalid_input_keeps_state [where e = quiet_env and w = email_world
      and m = "text_msg 1 3 (ascii ''info@acme'')" and email = "ascii ''info@acme''"
      and e' = quiet_env and m' = "text_msg 1 3 (ascii ''info@acme'')" and inn = "[]"
      and inn' = "[]" and phone = "[]"]
  have once: "handle quiet_env inn_world (text_msg 1 3 (ascii ''12345''))
       = (reply_to inn_world (text_msg 1 3 (ascii ''12345'')) txt_bad_inn No_markup, None)"
    using inn a f(1) g(1) h(1) i [of 3 "ascii ''12345''"] by metis
  have twice: "user_states
        (fst (handle quiet_env
               (fst (handle quiet_env inn_world (text_msg 1 3 (ascii ''12345''))))
               (text_msg 1 4 (ascii ''77O1234567'')))) = user_states inn_world"
    and twice_replies: "replies_since inn_world
        (fst (handle quiet_env
               (fst (handle quiet_env inn_world (text_msg 1 3 (ascii ''12345''))))
               (text_msg 1 4 (ascii ''77O1234567''))))
       = [txt_bad_inn, txt_bad_inn]"
    using inn a b f(1,2) g(1) h(1) i [of 3 "ascii ''12345''"] i [of 4 "ascii ''77O1234567''"]
    by metis+
  have p: "user_states (fst (handle quiet_env phone_world (text_msg 1 3 (ascii ''12345''))))
       = user_states phone_world"
    "replies_since phone_world (fst (handle quiet_env phone_world (text_msg 1 3 (ascii ''12345''))))
       = [txt_bad_phone]"
    using phone d f(1) g(2) h(2) i [of 3 "ascii ''12345''"] by metis+
  have q: "user_states (fst (handle quiet_env email_world (text_msg 1 3 (ascii ''info@acme''))))
       = user_states email_world"
    "replies_since email_world
        (fst (handle quiet_env email_world (text_msg 1 3 (ascii ''info@acme''))))
       = [txt_bad_email]"
    using email e f(3) g(3) h(3) i [of 3 "ascii ''info@acme''"] by metis+
  show ?thesis
    unfolding twice twice_replies p q
    using once a b c d e f g h by simp
qed

section \<open>The API flow\<close>

lemma parsed_truthy:
  "parse_api_response rd = Inr cd \<Longrightarrow> dict_truthy cd \<longleftrightarrow> cd \<noteq> None"
  by (auto simp: parse_api_response_def parse_text_data_def dict_truthy_def Let_def
      split: if_splits pyjson.splits)

lemma call_api_eq:
  "call_api e w = (w\<lparr>requests_made := requests_made w + calls (send_request (MAX_RETRIES e) (http_post e)),
             seconds_slept := seconds_slept w + slept (send_request (MAX_RETRIES e) (http_post e))\<rparr>,
          api_outcome e)"
  by (simp add: call_api_def api_outcome_def Let_def)

lemma added_not_error: "txt_api_added \<noteq> txt_error_prefix @ d"
  by (simp add: txt_api_added_def txt_error_prefix_def)

lemma added_not_no_data: "txt_api_added \<noteq> txt_api_no_data"
  by (simp add: txt_api_added_def txt_api_no_data_def)

text \<open>The text handler, by the outcome of the call, of the parse and of the insert.\<close>

lemma text_api_cases:
  "snd (process_text_for_api e w m t) = None"
  "user_states (fst (process_text_for_api e w m t)) (chat_id m) = None"
  "api_outcome e = Inl err \<Longrightarrow>
     replies_since w (fst (process_text_for_api e w m t)) = [txt_error_prefix @ str_exn err]
     \<and> companies (fst (process_text_for_api e w m t)) = companies w"
  "api_outcome e = Inr rd \<Longrightarrow> parse_api_response rd = Inl err \<Longrightarrow>
     replies_since w (fst (process_text_for_api e w m t)) = [txt_error_prefix @ str_exn err]
     \<and> companies (fst (process_text_for_api e w m t)) = companies w"
  "api_outcome e = Inr rd \<Longrightarrow> parse_api_response rd = Inr None \<Longrightarrow>
     replies_since w (fst (process_text_for_api e w m t)) = [txt_api_no_data]
     \<and> companies (fst (process_text_for_api e w m t)) = companies w"
  "api_outcome e = Inr rd \<Longrightarrow> parse_api_response rd = Inr (Some d) \<Longrightarrow>
   save_company e (companies w) d = Inl err \<Longrightarrow>
     replies_since w (fst (process_text_for_api e w m t)) = [txt_error_prefix @ str_exn err]
     \<and> companies (fst (process_text_for_api e w m t)) = companies w"
  "api_outcome e = Inr rd \<Longrightarrow> parse_api_response rd = Inr (Some d) \<Longrightarrow>
   save_company e (companies w) d = Inr (cid, rows) \<Longrightarrow>
     replies_since w (fst (process_text_for_api e w m t)) = [txt_api_added]
     \<and> companies (fst (process_text_for_api e w m t)) = rows"
  by (simp_all add: process_text_for_api_def call_api_eq error_reply_def parsed_truthy
      split: sum.splits)

lemma text_api_one_reply: "length (replies_since w (fst (process_text_for_api e w m t))) = 1"
proof (cases "api_outcome e")
  case (Inl err)
  then show ?thesis using text_api_cases(3) [of e err w m t] by simp
next
  case (Inr rd)
  show ?thesis
  proof (cases "parse_api_response rd")
    case (Inl err)
    then show ?thesis using text_api_cases(4) [OF Inr, of err w m t] by simp
  next
    case r: (Inr cd)
    show ?thesis
    proof (cases cd)
      case None
      then show ?thesis using text_api_cases(5) [OF Inr, of w m t] r by simp
    next
      case (Some d)
      show ?thesis
      proof (cases "save_company e (companies w) d")
        case (Inl err)
        then show ?thesis using text_api_cases(6) [OF Inr, of d w err m t] r Some by simp
      next
        case s: (Inr p)
        then show ?thesis
          using text_api_cases(7) [OF Inr, of d w "fst p" "snd p" m t] r Some by simp
      qed
    qed
  qed
qed

lemma text_api_success_iff:
  "replies_since w (fst (process_text_for_api e w m t)) = [txt_api_added]
     \<longleftrightarrow> (\<exists>rd d cid rows. api_outcome e = Inr rd \<and> parse_api_response rd = Inr (Some d)
            \<and> save_company e (companies w) d = Inr (cid, rows))"
proof (cases "api_outcome e")
  case (Inl err)
  then show ?thesis
    using text_api_cases(3) [of e err w m t] added_not_error [of "str_exn err"] by auto
next
  case (Inr rd)
  show ?thesis
  proof (cases "parse_api_response rd")
    case (Inl err)
    then show ?thesis
      using text_api_cases(4) [OF Inr, of err w m t] Inr added_not_error [of "str_exn err"]
      by auto
  next
    case r: (Inr cd)
    show ?thesis
    proof (cases cd)
      case None
      then show ?thesis
        using text_api_cases(5) [OF Inr, of w m t] r Inr added_not_no_data by auto
    next
      case (Some d)
      show ?thesis
      proof (cases "save_company e (companies w) d")
        case (Inl err)
        then show ?thesis
          using text_api_cases(6) [OF Inr, of d w err m t] r Some Inr
            added_not_error [of "str_exn err"]
          by auto
      next
        case s: (Inr p)
        then show ?thesis
          using text_api_cases(7) [OF Inr, of d w "fst p" "snd p" m t] r Some Inr
          by (cases p) auto
      qed
    qed
  qed
qed

text \<open>The file handler.\<close>

lemma file_api_always:
  "snd (process_files_for_api e w m ft cap) = None"
  "user_states (fst (process_files_for_api e w m ft cap)) (chat_id m) = None"
  by (simp_all add: process_files_for_api_def Let_def)

lemma file_api_no_file:
  "get_file e = Inl err \<Longrightarrow>
     replies_since w (fst (process_files_for_api e w m ft cap)) = [txt_error_prefix @ str_exn err]
     \<and> companies (fst (process_files_for_api e w m ft cap)) = companies w
     \<and> requests_made (fst (process_files_for_api e w m ft cap)) = requests_made w"
  by (simp add: process_files_for_api_def error_reply_def)

lemma file_api_like_text:
  "get_file e = Inr path \<Longrightarrow> insert_file_fault e = None \<Longrightarrow>
     replies_since w (fst (process_files_for_api e w m ft cap))
       = replies_since w (fst (process_text_for_api e w m t))
     \<and> companies (fst (process_files_for_api e w m ft cap))
       = companies (fst (process_text_for_api e w m t))"
  by (simp add: process_files_for_api_def process_text_for_api_def call_api_eq error_reply_def
      save_file_def split: sum.splits)

lemma file_api_no_attachment:
  "get_file e = Inr path \<Longrightarrow> insert_file_fault e = Some err \<Longrightarrow>
   api_outcome e = Inr rd \<Longrightarrow> parse_api_response rd = Inr (Some d) \<Longrightarrow>
   save_company e (companies w) d = Inr (cid, rows) \<Longrightarrow>
     replies_since w (fst (process_files_for_api e w m ft cap)) = [txt_error_prefix @ str_exn err]
     \<and> companies (fst (process_files_for_api e w m ft cap)) = rows
     \<and> files (fst (process_files_for_api e w m ft cap)) = files w"
  by (simp add: process_files_for_api_def call_api_eq error_reply_def parsed_truthy
      save_file_def)

lemma file_api_one_reply:
  "length (replies_since w (fst (process_files_for_api e w m ft cap))) = 1"
  by (simp add: process_files_for_api_def call_api_eq error_reply_def save_file_def
      split: sum.splits option.splits)

lemma save_company_inserts:
  "insert_company_fault e = None \<Longrightarrow> d Name = Some n \<Longrightarrow>
   save_company e cs d = Inr (length cs + 1, cs @ [persisted_row e (length cs) n d])"
  by (simp add: save_company_def persisted_row_def)

lemma save_company_fails:
  "insert_company_fault e = Some err \<Longrightarrow> save_company e cs d = Inl err"
  by (simp add: save_company_def)

lemma parsed_has_name: "parse_api_response rd = Inr (Some d) \<Longrightarrow> \<exists>n. d Name = Some n"
  by (auto simp: parse_api_response_def parse_text_data_def Let_def
      split: if_splits pyjson.splits)

lemma save_company_succeeds_iff:
  assumes "parse_api_response rd = Inr (Some d)"
  shows "(\<exists>cid rows. save_company e cs d = Inr (cid, rows)) \<longleftrightarrow> insert_company_fault e = None"
proof -
  obtain n where "d Name = Some n" using parsed_has_name [OF assms] by blast
  then show ?thesis
    by (cases "insert_company_fault e") (auto simp: save_company_def)
qed

text \<open>The two handlers by what fails outside, without the result of \<open>save_company\<close>.\<close>

lemma text_api_by_faults:
  "api_outcome e = Inr rd \<Longrightarrow> parse_api_response rd = Inr (Some d) \<Longrightarrow> d Name = Some n \<Longrightarrow>
   insert_company_fault e = None \<Longrightarrow>
     replies_since w (fst (process_text_for_api e w m t)) = [txt_api_added]
     \<and> companies (fst (process_text_for_api e w m t))
         = companies w @ [persisted_row e (length (companies w)) n d]"
  "api_outcome e = Inl err
     \<or> api_outcome e = Inr rd \<and> parse_api_response rd = Inl err
     \<or> api_outcome e = Inr rd \<and> parse_api_response rd = Inr (Some d)
        \<and> insert_company_fault e = Some err \<Longrightarrow>
     replies_since w (fst (process_text_for_api e w m t)) = [txt_error_prefix @ str_exn err]
     \<and> companies (fst (process_text_for_api e w m t)) = companies w"
  "replies_since w (fst (process_text_for_api e w m t)) = [txt_api_added]
     \<longleftrightarrow> (\<exists>rd d. api_outcome e = Inr rd \<and> parse_api_response rd = Inr (Some d)
            \<and> insert_company_fault e = None)"
proof -
  show "replies_since w (fst (process_text_for_api e w m t)) = [txt_api_added]
     \<and> companies (fst (process_text_for_api e w m t))
         = companies w @ [persisted_row e (length (companies w)) n d]"
    if "api_outcome e = Inr rd" "parse_api_response rd = Inr (Some d)" "d Name = Some n"
      "insert_company_fault e = None"
    using text_api_cases(7) [OF that(1,2), of w "length (companies w) + 1"
        "companies w @ [persisted_row e (length (companies w)) n d]" m t]
      save_company_inserts [where e = e and d = d and n = n and cs = "companies w"] that(3,4)
    by simp
  show "replies_since w (fst (process_text_for_api e w m t)) = [txt_error_prefix @ str_exn err]
     \<and> companies (fst (process_text_for_api e w m t)) = companies w"
    if "api_outcome e = Inl err
     \<or> api_outcome e = Inr rd \<and> parse_api_response rd = Inl err
     \<or> api_outcome e = Inr rd \<and> parse_api_response rd = Inr (Some d)
        \<and> insert_company_fault e = Some err"
    using that text_api_cases(3) [where e = e and err = err and w = w and m = m and t = t]
      text_api_cases(4) [where e = e and rd = rd and err = err and w = w and m = m and t = t]
      text_api_cases(6) [where e = e and rd = rd and d = d and err = err and w = w and m = m
        and t = t]
      save_company_fails [where e = e and err = err and cs = "companies w" and d = d]
    by blast
  show "replies_since w (fst (process_text_for_api e w m t)) = [txt_api_added]
     \<longleftrightarrow> (\<exists>rd d. api_outcome e = Inr rd \<and> parse_api_response rd = Inr (Some d)
            \<and> insert_company_fault e = None)"
    unfolding text_api_success_iff
    using save_company_succeeds_iff [of _ _ e "companies w"] by blast
qed

lemma file_api_by_faults:
  assumes "get_file e = Inr path"
  shows "api_outcome e = Inr rd \<Longrightarrow> parse_api_response rd = Inr None \<Longrightarrow>
     replies_since w (fst (process_files_for_api e w m ft cap)) = [txt_api_no_data]
     \<and> companies (fst (process_files_for_api e w m ft cap)) = companies w"
    and "api_outcome e = Inl err
     \<or> api_outcome e = Inr rd \<and> parse_api_response rd = Inl err
     \<or> api_outcome e = Inr rd \<and> parse_api_response rd = Inr (Some d)
        \<and> insert_company_fault e = Some err \<Longrightarrow>
     replies_since w (fst (process_files_for_api e w m ft cap))
       = [txt_error_prefix @ str_exn err]
     \<and> companies (fst (process_files_for_api e w m ft cap)) = companies w"
    and "api_outcome e = Inr rd \<Longrightarrow> parse_api_response rd = Inr (Some d) \<Longrightarrow>
       d Name = Some n \<Longrightarrow> insert_company_fault e = None \<Longrightarrow> insert_file_fault e = Some err \<Longrightarrow>
     replies_since w (fst (process_files_for_api e w m ft cap))
       = [txt_error_prefix @ str_exn err]
     \<and> companies (fst (process_files_for_api e w m ft cap))
         = companies w @ [persisted_row e (length (companies w)) n d]
     \<and> files (fst (process_files_for_api e w m ft cap)) = files w"
    and "api_outcome e = Inr rd \<Longrightarrow> parse_api_response rd = Inr (Some d) \<Longrightarrow>
       d Name = Some n \<Longrightarrow> insert_company_fault e = None \<Longrightarrow> insert_file_fault e = None \<Longrightarrow>
     files (fst (process_files_for_api e w m ft cap))
       = files w @ [attachment_row e (length (files w)) (length (companies w) + 1) path ft cap]"
proof -
  show "replies_since w (fst (process_files_for_api e w m ft cap)) = [txt_api_no_data]
     \<and> companies (fst (process_files_for_api e w m ft cap)) = companies w"
    if "api_outcome e = Inr rd" "parse_api_response rd = Inr None"
    using that assms
    by (simp add: process_files_for_api_def call_api_eq dict_truthy_def)
  show "replies_since w (fst (process_files_for_api e w m ft cap))
       = [txt_error_prefix @ str_exn err]
     \<and> companies (fst (process_files_for_api e w m ft cap)) = companies w"
    if "api_outcome e = Inl err
     \<or> api_outcome e = Inr rd \<and> parse_api_response rd = Inl err
     \<or> api_outcome e = Inr rd \<and> parse_api_response rd = Inr (Some d)
        \<and> insert_company_fault e = Some err"
    using that assms
    by (auto simp: process_files_for_api_def call_api_eq error_reply_def parsed_truthy
        save_company_fails)
  show "replies_since w (fst (process_files_for_api e w m ft cap))
       = [txt_error_prefix @ str_exn err]
     \<and> companies (fst (process_files_for_api e w m ft cap))
         = companies w @ [persisted_row e (length (companies w)) n d]
     \<and> files (fst (process_files_for_api e w m ft cap)) = files w"
    if "api_outcome e = Inr rd" "parse_api_response rd = Inr (Some d)" "d Name = Some n"
      "insert_company_fault e = None" "insert_file_fault e = Some err"
    using file_api_no_attachment [OF assms that(5,1,2), of w "length (companies w) + 1"
        "companies w @ [persisted_row e (length (companies w)) n d]" m ft cap]
      save_company_inserts [where e = e and d = d and n = n and cs = "companies w"] that(3,4)
    by simp
  show "files (fst (process_files_for_api e w m ft cap))
       = files w @ [attachment_row e (length (files w)) (length (companies w) + 1) path ft cap]"
    if "api_outcome e = Inr rd" "parse_api_response rd = Inr (Some d)" "d Name = Some n"
      "insert_company_fault e = None" "insert_file_fault e = None"
    using that assms
    by (simp add: process_files_for_api_def call_api_eq parsed_truthy save_company_inserts
        save_file_def attachment_row_def)
qed

text \<open>The inputs of the flow reach its two handlers.\<close>

lemma handle_api_text:
  "api_text_input w m t \<Longrightarrow> handle e w m = process_text_for_api e w m t"
  using route_api_step [of w m t]
  by (simp add: api_text_input_def handle_def)

lemma handle_api_file:
  "api_file_input w m ft cap \<Longrightarrow> handle e w m = process_files_for_api e w m ft cap"
  by (simp add: api_file_input_def handle_def)

text \<open>
  C6, as the claim states it, fails. Chat 1 waits for the API input and sends the help
  label: the help handler, registered before \<open>process_text_for_api\<close>, answers with the
  help text, no request is made, and the chat still waits for the API input.
\<close>

theorem help_label_keeps_api_step:
  "in_state api_world 1 Waiting_api_data
   \<and> replies_since api_world (fst (handle answering_env api_world (text_msg 1 2 btn_help)))
       = [txt_help]
   \<and> user_states (fst (handle answering_env api_world (text_msg 1 2 btn_help))) 1
       = Some \<lparr>state = Waiting_api_data, data = None\<rparr>
   \<and> requests_made (fst (handle answering_env api_world (text_msg 1 2 btn_help))) = 0"
proof -
  have "handle answering_env api_world (text_msg 1 2 btn_help)
          = (reply_to api_world (text_msg 1 2 btn_help) txt_help No_markup, None)"
    by (simp add: handle_def text_msg_def route_help help_message_def)
  then show ?thesis
    by (simp add: in_state_def api_world_def idle_world_def)
qed

text \<open>
  C6, amended. A chat that waits for the API input sends a file, or a text that no
  handler registered before \<open>process_text_for_api\<close> takes (not the \<open>/start\<close> command, not
  one of the labels "help", "add company", "show all companies", "find company" or "send
  to API", not one of the three criteria, and no search value pending for the chat).
  Handling it lets no exception escape, clears the entry of the chat and sends exactly
  one reply. For a text, and for a file once the file lookup works: the reply is the
  "no data" message when the parse result is absent, and the error message with the
  description of the exception when the call, the parser or the insert of the company
  raises, and in these cases the store is as before. For a text, and for a file when
  also the insert of the attachment works: the reply is the success message exactly when
  the call gives a response, the parser gives a record and the insert does not fail, and
  then the store is the old one followed by the row of the parsed record. For a file: a
  failed lookup gives the error message and no request; a failed insert of the
  attachment gives the error message, with the company stored; with everything working
  the attachment is stored with the id of the new company.
\<close>

theorem api_flow_terminal:
  "(api_text_input w m t \<or> api_file_input w m ft cap \<longrightarrow>
      snd (handle e w m) = None
      \<and> user_states (fst (handle e w m)) (chat_id m) = None
      \<and> length (replies_since w (fst (handle e w m))) = 1)
   \<and> (api_text_input w m t \<or> api_file_input w m ft cap \<and> get_file e = Inr path \<longrightarrow>
      (api_outcome e = Inr rd \<and> parse_api_response rd = Inr None \<longrightarrow>
         replies_since w (fst (handle e w m)) = [txt_api_no_data]
         \<and> companies (fst (handle e w m)) = companies w)
      \<and> (api_outcome e = Inl err
           \<or> api_outcome e = Inr rd \<and> parse_api_response rd = Inl err
           \<or> api_outcome e = Inr rd \<and> parse_api_response rd = Inr (Some d)
              \<and> insert_company_fault e = Some err \<longrightarrow>
         replies_since w (fst (handle e w m)) = [txt_error_prefix @ str_exn err]
         \<and> companies (fst (handle e w m)) = companies w))
   \<and> (api_text_input w m t
        \<or> api_file_input w m ft cap \<and> get_file e = Inr path \<and> insert_file_fault e = None \<longrightarrow>
      (replies_since w (fst (handle e w m)) = [txt_api_added]
         \<longleftrightarrow> (\<exists>rd d. api_outcome e = Inr rd \<and> parse_api_response rd = Inr (Some d)
                \<and> insert_company_fault e = None))
      \<and> (api_outcome e = Inr rd \<and> parse_api_response rd = Inr (Some d) \<and> d Name = Some n
           \<and> insert_company_fault e = None \<longrightarrow>
         replies_since w (fst (handle e w m)) = [txt_api_added]
         \<and> companies (fst (handle e w m))
             = companies w @ [persisted_row e (length (companies w)) n d]))
   \<and> (api_file_input w m ft cap \<and> get_file e = Inl err \<longrightarrow>
      replies_since w (fst (handle e w m)) = [txt_error_prefix @ str_exn err]
      \<and> companies (fst (handle e w m)) = companies w
      \<and> requests_made (fst (handle e w m)) = requests_made w)
   \<and> (api_file_input w m ft cap \<and> get_file e = Inr path
        \<and> api_outcome e = Inr rd \<and> parse_api_response rd = Inr (Some d) \<and> d Name = Some n
        \<and> insert_company_fault e = None \<and> insert_file_fault e = Some err \<longrightarrow>
      replies_since w (fst (handle e w m)) = [txt_error_prefix @ str_exn err]
      \<and> companies (fst (handle e w m))
          = companies w @ [persisted_row e (length (companies w)) n d]
      \<and> files (fst (handle e w m)) = files w)
   \<and> (api_file_input w m ft cap \<and> get_file e = Inr path
        \<and> api_outcome e = Inr rd \<and> parse_api_response rd = Inr (Some d) \<and> d Name = Some n
        \<and> insert_company_fault e = None \<and> insert_file_fault e = None \<longrightarrow>
      files (fst (handle e w m))
        = files w @ [attachment_row e (length (files w)) (length (companies w) + 1) path ft
                       cap])"
proof -
  have always: "snd (handle e w m) = None
      \<and> user_states (fst (handle e w m)) (chat_id m) = None
      \<and> length (replies_since w (fst (handle e w m))) = 1"
    if "api_text_input w m t \<or> api_file_input w m ft cap"
    using that
  proof
    assume "api_text_input w m t"
    then have h: "handle e w m = process_text_for_api e w m t"
      by (rule handle_api_text)
    show ?thesis
      unfolding h
      using text_api_cases(1,2) [of e w m t] text_api_one_reply [of w e m t]
      by simp
  next
    assume "api_file_input w m ft cap"
    then have h: "handle e w m = process_files_for_api e w m ft cap"
      by (rule handle_api_file)
    show ?thesis
      unfolding h
      using file_api_always [of e w m ft cap] file_api_one_reply [of w e m ft cap]
      by simp
  qed
  have failing: "(api_outcome e = Inr rd \<and> parse_api_response rd = Inr None \<longrightarrow>
         replies_since w (fst (handle e w m)) = [txt_api_no_data]
         \<and> companies (fst (handle e w m)) = companies w)
      \<and> (api_outcome e = Inl err
           \<or> api_outcome e = Inr rd \<and> parse_api_response rd = Inl err
           \<or> api_outcome e = Inr rd \<and> parse_api_response rd = Inr (Some d)
              \<and> insert_company_fault e = Some err \<longrightarrow>
         replies_since w (fst (handle e w m)) = [txt_error_prefix @ str_exn err]
         \<and> companies (fst (handle e w m)) = companies w)"
    if "api_text_input w m t \<or> api_file_input w m ft cap \<and> get_file e = Inr path"
    using that
  proof
    assume "api_text_input w m t"
    then have h: "handle e w m = process_text_for_api e w m t"
      by (rule handle_api_text)
    show ?thesis
      unfolding h
      using text_api_cases(5) [where e = e and rd = rd and w = w and m = m and t = t]
        text_api_by_faults(2) [where e = e and err = err and rd = rd and d = d and w = w
          and m = m and t = t]
      by simp
  next
    assume f: "api_file_input w m ft cap \<and> get_file e = Inr path"
    then have g: "get_file e = Inr path" by simp
    have h: "handle e w m = process_files_for_api e w m ft cap"
      using f by (intro handle_api_file) simp
    show ?thesis
      unfolding h
      using file_api_by_faults(1) [OF g, where rd = rd and w = w and m = m and ft = ft
          and cap = cap]
        file_api_by_faults(2) [OF g, where err = err and rd = rd and d = d and w = w
          and m = m and ft = ft and cap = cap]
      by simp
  qed
  have working: "(replies_since w (fst (handle e w m)) = [txt_api_added]
         \<longleftrightarrow> (\<exists>rd d. api_outcome e = Inr rd \<and> parse_api_response rd = Inr (Some d)
                \<and> insert_company_fault e = None))
      \<and> (api_outcome e = Inr rd \<and> parse_api_response rd = Inr (Some d) \<and> d Name = Some n
           \<and> insert_company_fault e = None \<longrightarrow>
         replies_since w (fst (handle e w m)) = [txt_api_added]
         \<and> companies (fst (handle e w m))
             = companies w @ [persisted_row e (length (companies w)) n d])"
    if "api_text_input w m t
        \<or> api_file_input w m ft cap \<and> get_file e = Inr path \<and> insert_file_fault e = None"
    using that
  proof
    assume "api_text_input w m t"
    then have h: "handle e w m = process_text_for_api e w m t"
      by (rule handle_api_text)
    show ?thesis
      unfolding h
      using text_api_by_faults(1) [where e = e and rd = rd and d = d and n = n and w = w
          and m = m and t = t]
        text_api_by_faults(3) [where e = e and w = w and m = m and t = t]
      by simp
  next
    assume f: "api_file_input w m ft cap \<and> get_file e = Inr path \<and> insert_file_fault e = None"
    have h: "handle e w m = process_files_for_api e w m ft cap"
      using f by (intro handle_api_file) simp
    show ?thesis
      unfolding h
      using f file_api_like_text [where e = e and path = path and w = w and m = m
          and ft = ft and cap = cap and t = t]
        text_api_by_faults(1) [where e = e and rd = rd and d = d and n = n and w = w
          and m = m and t = t]
        text_api_by_faults(3) [where e = e and w = w and m = m and t = t]
      by simp
  qed
  have nofile: "replies_since w (fst (handle e w m)) = [txt_error_prefix @ str_exn err]
      \<and> companies (fst (handle e w m)) = companies w
      \<and> requests_made (fst (handle e w m)) = requests_made w"
    if "api_file_input w m ft cap \<and> get_file e = Inl err"
    using that file_api_no_file [of e err w m ft cap] handle_api_file [of w m ft cap e]
    by simp
  have noattachment: "replies_since w (fst (handle e w m)) = [txt_error_prefix @ str_exn err]
      \<and> companies (fst (handle e w m))
          = companies w @ [persisted_row e (length (companies w)) n d]
      \<and> files (fst (handle e w m)) = files w"
    if "api_file_input w m ft cap \<and> get_file e = Inr path
        \<and> api_outcome e = Inr rd \<and> parse_api_response rd = Inr (Some d) \<and> d Name = Some n
        \<and> insert_company_fault e = None \<and> insert_file_fault e = Some err"
    using that file_api_by_faults(3) [where e = e and path = path and rd = rd and d = d
        and n = n and err = err and w = w and m = m and ft = ft and cap = cap]
      handle_api_file [of w m ft cap e]
    by simp
  have attached: "files (fst (handle e w m))
        = files w @ [attachment_row e (length (files w)) (length (companies w) + 1) path ft
                       cap]"
    if "api_file_input w m ft cap \<and> get_file e = Inr path
        \<and> api_outcome e = Inr rd \<and> parse_api_response rd = Inr (Some d) \<and> d Name = Some n
        \<and> insert_company_fault e = None \<and> insert_file_fault e = None"
    using that file_api_by_faults(4) [where e = e and path = path and rd = rd and d = d
        and n = n and w = w and m = m and ft = ft and cap = cap]
      handle_api_file [of w m ft cap e]
    by simp
  show ?thesis
    using always failing working nofile noattachment attached by blast
qed

lemma first_attempt_answers:
  assumes "0 < mr" "post 0 = Responds rd"
  shows "send_request mr post = \<lparr>outcome = Inr rd, calls = 1, slept = 0\<rparr>"
proof -
  have "[0..<nat mr] = 0 # [Suc 0..<nat mr]"
    using assms(1) by (simp add: upt_conv_Cons)
  then show ?thesis using assms(2) by (simp add: send_request_def)
qed

lemma api_outcome_first:
  "0 < MAX_RETRIES e \<Longrightarrow> http_post e 0 = Responds rd \<Longrightarrow> api_outcome e = Inr rd"
  by (simp add: api_outcome_def first_attempt_answers)

lemma api_outcome_samples:
  "api_outcome quiet_env = Inr (JDict [])"
  "api_outcome answering_env = Inr complete_response"
  "api_outcome full_disk_env = Inr complete_response"
  "api_outcome no_attachment_env = Inr complete_response"
  "api_outcome list_env = Inr (JOther True (ascii ''list''))"
  by (rule api_outcome_first;
      simp add: quiet_env_def answering_env_def full_disk_env_def no_attachment_env_def
        list_env_def)+

lemma api_outcome_dead: "api_outcome dead_env = Inl (RequestException (ascii ''2''))"
proof -
  have "[0..<nat 3] = [0, 1, 2]"
    by (simp add: upt_rec)
  then show ?thesis
    by (simp add: api_outcome_def dead_env_def quiet_env_def send_request_def dead_def
        str_nat.simps ascii_def)
qed

lemma api_outcome_none: "MAX_RETRIES e = 0 \<Longrightarrow> api_outcome e = Inr JNone"
  by (simp add: api_outcome_def send_request_def)

lemma parse_text_data_name: "parse_text_data s = Some d \<Longrightarrow> d Name \<noteq> None"
  by (auto simp: parse_text_data_def Let_def split: if_splits)

lemma complete_response_parsed:
  obtains d where "parse_api_response complete_response = Inr (Some d)" "d Name \<noteq> None"
proof -
  obtain d where d: "parse_text_data complete_text = Some d"
    using complete_text_parsed by auto
  have "complete_text \<noteq> []"
    by (simp add: complete_text_def label_defs)
  then have "parse_api_response complete_response = Inr (Some d)"
    using d by (simp add: complete_response_def parse_api_response_def text_data_of_def
        py_or_def dict_get_def dict_get_default_def ascii_def)
  then show ?thesis using that parse_text_data_name [OF d] by blast
qed

lemma save_company_ok:
  "insert_company_fault e = None \<Longrightarrow> d Name \<noteq> None \<Longrightarrow>
   \<exists>rows. save_company e cs d = Inr (length cs + 1, rows) \<and> length rows = length cs + 1"
  by (auto simp: save_company_def Let_def)

lemma save_company_fault:
  "insert_company_fault e = Some err \<Longrightarrow> save_company e cs d = Inl err"
  by (simp add: save_company_def)

lemma complete_response_record:
  "parse_api_response complete_response = Inr (Some complete_record)"
proof -
  have "parse_text_data complete_text = Some complete_record"
    by (simp add: complete_text_def parse_text_data_def parse_line_def complete_record_def
        label_defs ascii_def py_startswith_def py_strip_def py_isspace_def)
  moreover have "complete_text \<noteq> []"
    by (simp add: complete_text_def label_defs)
  ultimately show ?thesis
    by (simp add: complete_response_def parse_api_response_def text_data_of_def
        py_or_def dict_get_def dict_get_default_def ascii_def)
qed

lemma complete_record_row:
  "current_timestamp e = ascii ''2024-01-01 00:00:00'' \<Longrightarrow>
   persisted_row e 0 (ascii ''Acme'') complete_record = acme_row"
  by (simp add: persisted_row_def complete_record_def acme_row_def)

lemma api_world_facts:
  "companies api_world = []" "files api_world = []"
  "in_state api_world 1 Waiting_api_data" "\<not> search_pending api_world 1"
  by (simp_all add: api_world_def idle_world_def in_state_def search_pending_def)

lemma complete_text_is_input:
  "api_text_input api_world (text_msg 1 2 complete_text) complete_text"
proof -
  have "\<not> served_first complete_text"
    by (simp add: served_first_def extract_command_def py_startswith_def button_defs
        complete_text_def label_defs ascii_def)
  moreover have "complete_text \<noteq> btn_send_to_api"
    by (simp add: complete_text_def label_defs btn_send_to_api_def)
  ultimately show ?thesis
    using api_world_facts(3,4) by (simp add: api_text_input_def text_msg_def)
qed

lemma document_is_input: "api_file_input api_world (file_msg 1 2 Document) Document None"
  using api_world_facts(3) by (simp add: api_file_input_def file_msg_def)

text \<open>
  The amended C6 at chat 1 waiting for the API input. For a text: a complete record (the
  store then holds its row), an empty answer, a dead network, an answer that is a list, a
  failing insert. For a document: a failing lookup, a complete record (the store holds
  the row and the attachment), a failing insert of the attachment (the row is stored, the
  attachment is not).
\<close>

theorem api_flow_terminal_witness:
  "api_text_input api_world (text_msg 1 2 complete_text) complete_text
   \<and> replies_since api_world
       (fst (handle answering_env api_world (text_msg 1 2 complete_text))) = [txt_api_added]
   \<and> companies (fst (handle answering_env api_world (text_msg 1 2 complete_text)))
       = [acme_row]
   \<and> user_states (fst (handle answering_env api_world (text_msg 1 2 complete_text))) 1 = None
   \<and> snd (handle answering_env api_world (text_msg 1 2 complete_text)) = None
   \<and> replies_since api_world
       (fst (handle quiet_env api_world (text_msg 1 2 complete_text))) = [txt_api_no_data]
   \<and> replies_since api_world
       (fst (handle dead_env api_world (text_msg 1 2 complete_text)))
       = [txt_error_prefix @ ascii ''2'']
   \<and> replies_since api_world
       (fst (handle list_env api_world (text_msg 1 2 complete_text)))
       = [txt_error_prefix @ str_exn (no_attribute (JOther True (ascii ''list'')) ''get'')]
   \<and> replies_since api_world
       (fst (handle full_disk_env api_world (text_msg 1 2 complete_text)))
       = [txt_error_prefix @ ascii ''disk full'']
   \<and> companies (fst (handle full_disk_env api_world (text_msg 1 2 complete_text))) = []
   \<and> api_file_input api_world (file_msg 1 2 Document) Document None
   \<and> replies_since api_world
       (fst (handle no_file_env api_world (file_msg 1 2 Document)))
       = [txt_error_prefix @ ascii ''file is too big'']
   \<and> replies_since api_world
       (fst (handle answering_env api_world (file_msg 1 2 Document))) = [txt_api_added]
   \<and> companies (fst (handle answering_env api_world (file_msg 1 2 Document))) = [acme_row]
   \<and> files (fst (handle answering_env api_world (file_msg 1 2 Document)))
       = [attachment_row answering_env 0 1 [] Document None]
   \<and> replies_since api_world
       (fst (handle no_attachment_env api_world (file_msg 1 2 Document)))
       = [txt_error_prefix @ ascii ''disk full'']
   \<and> companies (fst (handle no_attachment_env api_world (file_msg 1 2 Document)))
       = [acme_row]
   \<and> files (fst (handle no_attachment_env api_world (file_msg 1 2 Document))) = []
   \<and> user_states (fst (handle no_attachment_env api_world (file_msg 1 2 Document))) 1 = None"
proof -
  let ?tm = "text_msg 1 2 complete_text"
  let ?fm = "file_msg 1 2 Document"
  note ti = complete_text_is_input
  note fi = document_is_input
  note p = complete_response_record
  have nm: "complete_record Name = Some (ascii ''Acme'')"
    by (simp add: complete_record_def)
  have envs:
    "insert_company_fault answering_env = None" "insert_file_fault answering_env = None"
    "get_file answering_env = Inr []"
    "insert_company_fault no_attachment_env = None"
    "insert_file_fault no_attachment_env = Some (StoreError (ascii ''disk full''))"
    "get_file no_attachment_env = Inr []"
    "insert_company_fault full_disk_env = Some (StoreError (ascii ''disk full''))"
    "get_file no_file_env = Inl (OtherError (ascii ''file is too big''))"
    by (simp_all add: answering_env_def no_attachment_env_def full_disk_env_def
        no_file_env_def quiet_env_def)
  have rows: "persisted_row answering_env 0 (ascii ''Acme'') complete_record = acme_row"
    "persisted_row no_attachment_env 0 (ascii ''Acme'') complete_record = acme_row"
    by (rule complete_record_row;
        simp add: answering_env_def no_attachment_env_def quiet_env_def)+
  have chat: "chat_id ?tm = 1" "chat_id ?fm = 1"
    by (simp_all add: text_msg_def file_msg_def)
  have empty: "parse_api_response (JDict []) = Inr None"
    by (simp add: parse_api_response_def)
  have lst: "parse_api_response (JOther True (ascii ''list''))
               = Inl (no_attribute (JOther True (ascii ''list'')) ''get'')"
    by (simp add: parse_api_response_def)
  note ok = api_flow_terminal [where e = answering_env and w = api_world and m = ?tm
      and t = complete_text and rd = complete_response and d = complete_record
      and n = "ascii ''Acme''" and ft = Document and cap = None and path = "[]"
      and err = "OtherError []"]
  note okf = api_flow_terminal [where e = answering_env and w = api_world and m = ?fm
      and t = complete_text and rd = complete_response and d = complete_record
      and n = "ascii ''Acme''" and ft = Document and cap = None and path = "[]"
      and err = "OtherError []"]
  note quiet = api_flow_terminal [where e = quiet_env and w = api_world and m = ?tm
      and t = complete_text and rd = "JDict []" and d = complete_record
      and n = "ascii ''Acme''" and ft = Document and cap = None and path = "[]"
      and err = "OtherError []"]
  note dead = api_flow_terminal [where e = dead_env and w = api_world and m = ?tm
      and t = complete_text and rd = "JDict []" and d = complete_record
      and n = "ascii ''Acme''" and ft = Document and cap = None and path = "[]"
      and err = "RequestException (ascii ''2'')"]
  note lst' = api_flow_terminal [where e = list_env and w = api_world and m = ?tm
      and t = complete_text and rd = "JOther True (ascii ''list'')" and d = complete_record
      and n = "ascii ''Acme''" and ft = Document and cap = None and path = "[]"
      and err = "no_attribute (JOther True (ascii ''list'')) ''get''"]
  note disk = api_flow_terminal [where e = full_disk_env and w = api_world and m = ?tm
      and t = complete_text and rd = complete_response and d = complete_record
      and n = "ascii ''Acme''" and ft = Document and cap = None and path = "[]"
      and err = "StoreError (ascii ''disk full'')"]
  note nofile = api_flow_terminal [where e = no_file_env and w = api_world and m = ?fm
      and t = complete_text and rd = complete_response and d = complete_record
      and n = "ascii ''Acme''" and ft = Document and cap = None and path = "[]"
      and err = "OtherError (ascii ''file is too big'')"]
  note noatt = api_flow_terminal [where e = no_attachment_env and w = api_world and m = ?fm
      and t = complete_text and rd = complete_response and d = complete_record
      and n = "ascii ''Acme''" and ft = Document and cap = None and path = "[]"
      and err = "StoreError (ascii ''disk full'')"]
  have 1: "replies_since api_world (fst (handle answering_env api_world ?tm)) = [txt_api_added]"
    and 2: "companies (fst (handle answering_env api_world ?tm))
              = companies api_world @ [persisted_row answering_env (length (companies api_world))
                   (ascii ''Acme'') complete_record]"
    using ok ti api_outcome_samples(2) p nm envs(1) by blast+
  have 3: "user_states (fst (handle answering_env api_world ?tm)) (chat_id ?tm) = None"
    and 4: "snd (handle answering_env api_world ?tm) = None"
    using ok ti by blast+
  have 5: "replies_since api_world (fst (handle quiet_env api_world ?tm)) = [txt_api_no_data]"
    using quiet ti api_outcome_samples(1) empty by blast
  have 6: "replies_since api_world (fst (handle dead_env api_world ?tm))
             = [txt_error_prefix @ str_exn (RequestException (ascii ''2''))]"
    using dead ti api_outcome_dead by blast
  have 7: "replies_since api_world (fst (handle list_env api_world ?tm))
           = [txt_error_prefix @ str_exn (no_attribute (JOther True (ascii ''list'')) ''get'')]"
    using lst' ti api_outcome_samples(5) lst by blast
  have 8: "replies_since api_world (fst (handle full_disk_env api_world ?tm))
             = [txt_error_prefix @ str_exn (StoreError (ascii ''disk full''))]"
    and 9: "companies (fst (handle full_disk_env api_world ?tm)) = companies api_world"
    using disk ti api_outcome_samples(3) p envs(7) by blast+
  have 10: "replies_since api_world (fst (handle no_file_env api_world ?fm))
           = [txt_error_prefix @ str_exn (OtherError (ascii ''file is too big''))]"
    using nofile fi envs(8) by blast
  have 11: "replies_since api_world (fst (handle answering_env api_world ?fm)) = [txt_api_added]"
    and 12: "companies (fst (handle answering_env api_world ?fm))
              = companies api_world @ [persisted_row answering_env (length (companies api_world))
                   (ascii ''Acme'') complete_record]"
    and 13: "files (fst (handle answering_env api_world ?fm))
              = files api_world @ [attachment_row answering_env (length (files api_world))
                   (length (companies api_world) + 1) [] Document None]"
    using okf fi api_outcome_samples(2) p nm envs(1,2,3) by blast+
  have 14: "replies_since api_world (fst (handle no_attachment_env api_world ?fm))
             = [txt_error_prefix @ str_exn (StoreError (ascii ''disk full''))]"
    and 15: "companies (fst (handle no_attachment_env api_world ?fm))
              = companies api_world @ [persisted_row no_attachment_env
                   (length (companies api_world)) (ascii ''Acme'') complete_record]"
    and 16: "files (fst (handle no_attachment_env api_world ?fm)) = files api_world"
    using noatt fi api_outcome_samples(4) p nm envs(4,5,6) by blast+
  have 17: "user_states (fst (handle no_attachment_env api_world ?fm)) (chat_id ?fm) = None"
    using noatt fi by blast
  show ?thesis
    unfolding 1 2 5 6 7 8 9 10 11 12 13 14 15 16
    using ti fi 3 4 17 chat rows api_world_facts(1,2) by simp
qed

section \<open>No attempt allowed\<close>

lemma text_api_no_attempt:
  assumes "MAX_RETRIES e = 0"
  shows "process_text_for_api e w m t
           = ((reply_to w m txt_api_no_data Main_keyboard)
                \<lparr>user_states := (user_states w)(chat_id m := None)\<rparr>, None)"
proof -
  have "send_request (MAX_RETRIES e) (http_post e) = \<lparr>outcome = Inr JNone, calls = 0, slept = 0\<rparr>"
    using assms by (simp add: send_request_def)
  then have "call_api e w = (w, Inr JNone)"
    by (simp add: call_api_def)
  then show ?thesis
    by (simp add: process_text_for_api_def parse_api_response_def dict_truthy_def)
qed

lemma file_api_no_attempt:
  assumes "MAX_RETRIES e = 0" "get_file e = Inr path"
  shows "process_files_for_api e w m ft cap
           = ((reply_to w m txt_api_no_data Main_keyboard)
                \<lparr>user_states := (user_states w)(chat_id m := None)\<rparr>, None)"
proof -
  have "send_request (MAX_RETRIES e) (http_post e) = \<lparr>outcome = Inr JNone, calls = 0, slept = 0\<rparr>"
    using assms by (simp add: send_request_def)
  then have "call_api e w = (w, Inr JNone)"
    by (simp add: call_api_def)
  then show ?thesis
    using assms(2)
    by (simp add: process_files_for_api_def parse_api_response_def dict_truthy_def)
qed

lemma text_api_empty_answer:
  assumes "0 < MAX_RETRIES e" "http_post e 0 = Responds (JDict [])"
  shows "replies_since w (fst (process_text_for_api e w m t)) = [txt_api_no_data]"
    and "user_states (fst (process_text_for_api e w m t)) = (user_states w)(chat_id m := None)"
    and "snd (process_text_for_api e w m t) = None"
proof -
  have "send_request (MAX_RETRIES e) (http_post e)
          = \<lparr>outcome = Inr (JDict []), calls = 1, slept = 0\<rparr>"
    using assms by (rule first_attempt_answers)
  then have c: "call_api e w = (w\<lparr>requests_made := requests_made w + 1,
                                  seconds_slept := seconds_slept w\<rparr>, Inr (JDict []))"
    by (simp add: call_api_def)
  show "replies_since w (fst (process_text_for_api e w m t)) = [txt_api_no_data]"
    and "user_states (fst (process_text_for_api e w m t)) = (user_states w)(chat_id m := None)"
    and "snd (process_text_for_api e w m t) = None"
    by (simp_all add: process_text_for_api_def c parse_api_response_def dict_truthy_def)
qed

text \<open>
  C10. With \<open>MAX_RETRIES = 0\<close> the client makes no request, sleeps no time, raises
  nothing and returns \<open>None\<close>, which the parser reads as an absent record. The text
  handler then replies with the "no data" message, clears the entry of the chat and lets
  no exception escape: its reply, the states it leaves and its result are those of a
  call answered with an empty dict. The file handler, once the file is found, does the
  same.
\<close>

theorem zero_retries_no_request:
  "send_request 0 post = \<lparr>outcome = Inr JNone, calls = 0, slept = 0\<rparr>
   \<and> parse_api_response JNone = Inr None
   \<and> (MAX_RETRIES e = 0 \<longrightarrow>
        process_text_for_api e w m t
          = ((reply_to w m txt_api_no_data Main_keyboard)
               \<lparr>user_states := (user_states w)(chat_id m := None)\<rparr>, None)
        \<and> replies_since w (fst (process_text_for_api e w m t)) = [txt_api_no_data]
        \<and> requests_made (fst (process_text_for_api e w m t)) = requests_made w
        \<and> seconds_slept (fst (process_text_for_api e w m t)) = seconds_slept w)
   \<and> (MAX_RETRIES e = 0 \<and> 0 < MAX_RETRIES e' \<and> http_post e' 0 = Responds (JDict []) \<longrightarrow>
        replies_since w (fst (process_text_for_api e w m t))
          = replies_since w (fst (process_text_for_api e' w m t))
        \<and> user_states (fst (process_text_for_api e w m t))
          = user_states (fst (process_text_for_api e' w m t))
        \<and> snd (process_text_for_api e w m t) = snd (process_text_for_api e' w m t))
   \<and> (MAX_RETRIES e = 0 \<and> get_file e = Inr path \<longrightarrow>
        process_files_for_api e w m ft cap
          = ((reply_to w m txt_api_no_data Main_keyboard)
               \<lparr>user_states := (user_states w)(chat_id m := None)\<rparr>, None))"
proof -
  have a: "send_request 0 post = \<lparr>outcome = Inr JNone, calls = 0, slept = 0\<rparr>"
    by (simp add: send_request_def)
  have b: "parse_api_response JNone = Inr None"
    by (simp add: parse_api_response_def)
  have c: "process_text_for_api e w m t
          = ((reply_to w m txt_api_no_data Main_keyboard)
               \<lparr>user_states := (user_states w)(chat_id m := None)\<rparr>, None)
        \<and> replies_since w (fst (process_text_for_api e w m t)) = [txt_api_no_data]
        \<and> requests_made (fst (process_text_for_api e w m t)) = requests_made w
        \<and> seconds_slept (fst (process_text_for_api e w m t)) = seconds_slept w"
    if "MAX_RETRIES e = 0"
    using text_api_no_attempt [OF that, of w m t] by simp
  have d: "replies_since w (fst (process_text_for_api e w m t))
          = replies_since w (fst (process_text_for_api e' w m t))
        \<and> user_states (fst (process_text_for_api e w m t))
          = user_states (fst (process_text_for_api e' w m t))
        \<and> snd (process_text_for_api e w m t) = snd (process_text_for_api e' w m t)"
    if "MAX_RETRIES e = 0" "0 < MAX_RETRIES e'" "http_post e' 0 = Responds (JDict [])"
    using text_api_empty_answer [OF that(2,3), of w m t] c [OF that(1)] by simp
  show ?thesis
    using a b c d file_api_no_attempt [of e path w m ft cap] by blast
qed

text \<open>C10 at chat 1 waiting for the API input, for a text and for a photo.\<close>

theorem zero_retries_no_request_witness:
  "MAX_RETRIES no_retry_env = 0
   \<and> replies_since api_world
       (fst (process_text_for_api no_retry_env api_world (text_msg 1 2 complete_text)
               complete_text)) = [txt_api_no_data]
   \<and> requests_made
       (fst (process_text_for_api no_retry_env api_world (text_msg 1 2 complete_text)
               complete_text)) = 0
   \<and> replies_since api_world
       (fst (process_text_for_api quiet_env api_world (text_msg 1 2 complete_text)
               complete_text)) = [txt_api_no_data]
   \<and> get_file no_retry_env = Inr []
   \<and> process_files_for_api no_retry_env api_world (file_msg 1 2 Photo) Photo None
       = ((reply_to api_world (file_msg 1 2 Photo) txt_api_no_data Main_keyboard)
            \<lparr>user_states := (user_states api_world)(chat_id (file_msg 1 2 Photo) := None)\<rparr>,
          None)"
proof -
  have a: "MAX_RETRIES no_retry_env = 0" "get_file no_retry_env = Inr []"
    by (simp_all add: no_retry_env_def quiet_env_def)
  have b: "0 < MAX_RETRIES quiet_env" "http_post quiet_env 0 = Responds (JDict [])"
    by (simp_all add: quiet_env_def)
  have c: "requests_made api_world = 0"
    by (simp add: api_world_def idle_world_def)
  note z = zero_retries_no_request [where e = no_retry_env and e' = quiet_env
      and w = api_world and m = "text_msg 1 2 complete_text" and t = complete_text]
  note zf = zero_retries_no_request [where e = no_retry_env and w = api_world
      and m = "file_msg 1 2 Photo" and ft = Photo and cap = None and path = "[]"]
  have 1: "replies_since api_world
       (fst (process_text_for_api no_retry_env api_world (text_msg 1 2 complete_text)
               complete_text)) = [txt_api_no_data]"
    using z a(1) by blast
  have 2: "requests_made
       (fst (process_text_for_api no_retry_env api_world (text_msg 1 2 complete_text)
               complete_text)) = 0"
    using z a(1) c by metis
  have 3: "replies_since api_world
       (fst (process_text_for_api quiet_env api_world (text_msg 1 2 complete_text)
               complete_text)) = [txt_api_no_data]"
    using z a(1) b 1 by metis
  have 4: "process_files_for_api no_retry_env api_world (file_msg 1 2 Photo) Photo None
       = ((reply_to api_world (file_msg 1 2 Photo) txt_api_no_data Main_keyboard)
            \<lparr>user_states := (user_states api_world)(chat_id (file_msg 1 2 Photo) := None)\<rparr>,
          None)"
    using zf a by blast
  show ?thesis using a 1 2 3 4 by simp
qed

end
